theory Spec2Isabelle
  imports Main "HOL-Library.Char_ord" "HOL-Library.List_Lexorder"
begin

section \<open>JavaScript values used by create-relationships.js\<close>

text \<open>
  Work package ids are JSON numbers (\<open>wp.id\<close>); they are non-negative integers, \<open>nat\<close>
  here. \<open>toString\<close> is \<open>Number.prototype.toString\<close> on such an id: its decimal digits
  (ids stay far below 1e21, where JavaScript would switch to exponent notation).
\<close>

definition digit :: "nat \<Rightarrow> char" where
  "digit d = ''0123456789'' ! d"

function toString :: "nat \<Rightarrow> string" where
  "toString n = (if n < 10 then [digit n] else toString (n div 10) @ [digit (n mod 10)])"
  by pat_completeness auto
termination
  by (relation "measure (\<lambda>n. n)") auto

declare toString.simps [simp del]

text \<open>
  \<open>String.prototype.split\<close> with a one-character separator, and \<open>Array.prototype.pop\<close>
  read as a value (\<open>undefined\<close>, here \<open>None\<close>, on an empty array).
\<close>

fun js_split :: "char \<Rightarrow> string \<Rightarrow> string list" where
  "js_split c [] = [[]]"
| "js_split c (x # xs) =
     (if x = c then [] # js_split c xs
      else (case js_split c xs of
              [] \<Rightarrow> [[x]]
            | s # ss \<Rightarrow> (x # s) # ss))"

definition js_pop :: "'a list \<Rightarrow> 'a option" where
  "js_pop xs = (if xs = [] then None else Some (last xs))"

text \<open>
  \<open>getHrefId(href)\<close>, lines 68-70: \<open>href?.split("/").pop()\<close>; an absent or null href
  (\<open>None\<close>) gives \<open>undefined\<close>.
\<close>

definition getHrefId :: "string option \<Rightarrow> string option" where
  "getHrefId href = (case href of None \<Rightarrow> None | Some h \<Rightarrow> js_pop (js_split CHR ''/'' h))"

text \<open>
  The relational operators greater-than and less-than on two values that are strings or
  \<open>undefined\<close>: two strings are compared lexicographically by code unit; as soon as one
  side is \<open>undefined\<close> both become numbers, \<open>undefined\<close> becomes NaN and the comparison
  is false.
\<close>

definition js_gt :: "string option \<Rightarrow> string option \<Rightarrow> bool" where
  "js_gt a b = (case a of None \<Rightarrow> False | Some x \<Rightarrow> (case b of None \<Rightarrow> False | Some y \<Rightarrow> y < x))"

definition js_lt :: "string option \<Rightarrow> string option \<Rightarrow> bool" where
  "js_lt a b = (case a of None \<Rightarrow> False | Some x \<Rightarrow> (case b of None \<Rightarrow> False | Some y \<Rightarrow> x < y))"

text \<open>
  Truthiness of what \<open>Map.get\<close> returns: \<open>undefined\<close> and the number 0 are falsy.
  \<open>truthy\<close> keeps the id exactly when \<open>if (id)\<close> takes the branch.
\<close>

definition truthy :: "nat option \<Rightarrow> nat option" where
  "truthy v = (case v of None \<Rightarrow> None | Some n \<Rightarrow> if n = 0 then None else Some n)"

text \<open>Truthiness of an optional string field: \<open>undefined\<close>, \<open>null\<close> and \<open>""\<close> are falsy.\<close>

definition truthy_string :: "string option \<Rightarrow> string option" where
  "truthy_string v = (case v of None \<Rightarrow> None | Some s \<Rightarrow> if s = [] then None else Some s)"

text \<open>\<open>Map.prototype.get\<close> on a map whose keys are strings; the key looked up may be \<open>undefined\<close>.\<close>

definition Map_get :: "(string \<rightharpoonup> nat) \<Rightarrow> string option \<Rightarrow> nat option" where
  "Map_get m k = (case k of None \<Rightarrow> None | Some k' \<Rightarrow> m k')"

text \<open>\<open>Set.prototype.add\<close>: a set keeps insertion order and ignores a value it already holds.\<close>

definition Set_add :: "'a \<Rightarrow> 'a list \<Rightarrow> 'a list" where
  "Set_add x xs = (if x \<in> set xs then xs else xs @ [x])"

section \<open>The Jira issues read by the module\<close>

text \<open>
  \<open>link.outwardIssue\<close> or \<open>link.inwardIssue\<close>: its \<open>key\<close> and \<open>fields?.created\<close>.
\<close>

record linked_issue =
  linked_key :: string
  linked_created :: "string option"

text \<open>An element of \<open>issue.fields.issuelinks\<close>, with \<open>link.type.outward\<close> and \<open>link.type.inward\<close>.\<close>

record issue_link =
  type_outward :: string
  type_inward :: string
  outwardIssue :: "linked_issue option"
  inwardIssue :: "linked_issue option"

text \<open>
  An issue: \<open>issue.key\<close>, \<open>issue.fields.created\<close>, \<open>issue.fields.customfield_10014\<close> (the
  epic link) and \<open>issue.fields.issuelinks\<close>.
\<close>

record issue =
  key :: string
  created :: "string option"
  customfield_10014 :: "string option"
  issuelinks :: "issue_link list option"

section \<open>The OpenProject API as the module sees it\<close>

text \<open>A rejected request: \<open>error.message\<close> and \<open>error.response?.data\<close> (as JSON text).\<close>

record js_error =
  message :: string
  response_data :: "string option"

text \<open>
  \<open>response.data._links\<close> of GET /work_packages/id: \<open>parent?.href\<close>, and \<open>children\<close>
  (absent, or a list of links read with \<open>child?.href\<close>).
\<close>

record work_package_links =
  parent :: "string option"
  children :: "string option list option"

text \<open>An element of \<open>response.data._embedded.elements\<close> of GET /relations.\<close>

record relation_summary =
  summary_id :: nat
  summary_type :: string
  from_title :: string
  from_href :: string
  to_title :: string
  to_href :: string

record relations_page =
  total :: int
  elements :: "relation_summary list"

text \<open>
  The filter object of lines 92-95 and the two filters of lines 96-107, \<open>{from: filter}\<close>
  and \<open>{to: filter}\<close>.
\<close>

record relation_filter =
  operator :: string
  filter_values :: "string list"

datatype filter_entry = From relation_filter | To relation_filter

text \<open>
  The payload of lines 179-188. \<open>payload_to\<close> is the id that the template
  \<open>/api/v3/work_packages/${toId}\<close> of \<open>_links.to.href\<close> holds.
\<close>

record payload =
  payload_type :: "string option"
  description :: string
  lag :: int
  payload_to :: nat

text \<open>
  The three requests the module sends: GET /work_packages/id, GET /relations with
  filters, and POST /work_packages/id/relations with a payload.
\<close>

datatype request =
    Get_work_package nat
  | Get_relations "filter_entry list"
  | Post_relation nat payload

text \<open>
  The server is a parameter of the model: any state type, and for each request a function
  from the server's state to the answer (an error, or the response data) and the next
  state. The response data of a creation is kept as JSON text.
\<close>

record 's server =
  get_work_package :: "nat \<Rightarrow> 's \<Rightarrow> (js_error + work_package_links) \<times> 's"
  get_relations :: "filter_entry list \<Rightarrow> 's \<Rightarrow> (js_error + relations_page) \<times> 's"
  post_relation :: "nat \<Rightarrow> payload \<Rightarrow> 's \<Rightarrow> (js_error + string) \<times> 's"

section \<open>Console output\<close>

text \<open>
  One constructor for each \<open>console.log\<close> and \<open>console.error\<close> call of the module,
  holding the values its message is built from.
\<close>

datatype message =
    Found_existing_parent nat nat
  | Error_checking_parent string
  | Checking_for_existing nat nat
  | Found_parent_skipping "string option"
  | Api_response relations_page
  | Relationship_exists bool int
  | Details_header
  | Details_relation_id nat
  | Details_type string
  | Details_from string "string option"
  | Details_to string "string option"
  | Details_direction string
  | Error_checking_existing string
  | Error_details string
  | Attempting nat "string option" nat
  | Already_exists "string option" nat nat
  | Creating_payload payload
  | Creation_response string
  | Created "string option" nat nat
  | Error_creating nat nat "string option" string
  | Epic_not_found string
  | Skipping_duplicate string
  | Failed_to_create string "string option" "string option"
  | Skipping_target "string option"
  | Retrying nat
  | Created_relationship string "string option" "string option"
  | Still_missing string "string option" "string option"
  | Creating_relationships_banner
  | Complete_banner
  | Relationship_creation_failed string

datatype stream = Stdout | Stderr

section \<open>The module's state\<close>

text \<open>
  An element of \<open>missingRelationships\<close>: the object whose JSON text the set holds.
  \<open>JSON.stringify\<close> leaves a property out when it is \<open>undefined\<close>, and \<open>JSON.parse\<close>
  gives the object back, so the text and the triple determine each other.
\<close>

record pending =
  fromKey :: string
  toKey :: "string option"
  pending_type :: "string option"

text \<open>
  Everything the module reads and writes: the server, the requests sent so far (oldest
  first), the console, and the two module-level constants of lines 18 and 21,
  \<open>issueToWorkPackageMap\<close> and \<open>missingRelationships\<close>.
\<close>

record 's world =
  server_state :: 's
  requests :: "request list"
  console :: "(stream \<times> message) list"
  issueToWorkPackageMap :: "string \<rightharpoonup> nat"
  missingRelationships :: "pending list"

definition console_log :: "message \<Rightarrow> 's world \<Rightarrow> 's world" where
  "console_log m w = w\<lparr>console := console w @ [(Stdout, m)]\<rparr>"

definition console_error :: "message \<Rightarrow> 's world \<Rightarrow> 's world" where
  "console_error m w = w\<lparr>console := console w @ [(Stderr, m)]\<rparr>"

text \<open>
  \<open>if (error.response?.data) console.error("Error details:", ...)\<close>, lines 153-158 and
  206-211.
\<close>

definition error_details :: "js_error \<Rightarrow> 's world \<Rightarrow> 's world" where
  "error_details e w =
     (case truthy_string (response_data e) of
        None \<Rightarrow> w
      | Some d \<Rightarrow> console_error (Error_details d) w)"

text \<open>\<open>openProjectApi.get\<close> and \<open>openProjectApi.post\<close>: the request is recorded and answered.\<close>

definition api_get_work_package ::
  "'s server \<Rightarrow> nat \<Rightarrow> 's world \<Rightarrow> (js_error + work_package_links) \<times> 's world" where
  "api_get_work_package srv i w =
     (case get_work_package srv i (server_state w) of
        (r, s) \<Rightarrow> (r, w\<lparr>server_state := s, requests := requests w @ [Get_work_package i]\<rparr>))"

definition api_get_relations ::
  "'s server \<Rightarrow> filter_entry list \<Rightarrow> 's world \<Rightarrow> (js_error + relations_page) \<times> 's world" where
  "api_get_relations srv fs w =
     (case get_relations srv fs (server_state w) of
        (r, s) \<Rightarrow> (r, w\<lparr>server_state := s, requests := requests w @ [Get_relations fs]\<rparr>))"

definition api_post_relation ::
  "'s server \<Rightarrow> nat \<Rightarrow> payload \<Rightarrow> 's world \<Rightarrow> (js_error + string) \<times> 's world" where
  "api_post_relation srv i p w =
     (case post_relation srv i p (server_state w) of
        (r, s) \<Rightarrow> (r, w\<lparr>server_state := s, requests := requests w @ [Post_relation i p]\<rparr>))"

section \<open>The functions of create-relationships.js\<close>

text \<open>
  \<open>checkParentRelationship(fromId, toId)\<close>, lines 34-59. The \<open>catch\<close> of line 55 takes
  a rejected GET; \<open>find\<close> returns the first child whose href ends in \<open>toId\<close>, and any
  such child is an object, hence truthy.
\<close>

definition checkParentRelationship ::
  "'s server \<Rightarrow> nat \<Rightarrow> nat \<Rightarrow> 's world \<Rightarrow> bool \<times> 's world" where
  "checkParentRelationship srv fromId toId w =
     (case api_get_work_package srv fromId w of
        (Inl error, w1) \<Rightarrow> (False, console_error (Error_checking_parent (message error)) w1)
      | (Inr links, w1) \<Rightarrow>
          (let parentLink = parent links;
               childrenLinks = children links;
               toIdStr = toString toId
           in if getHrefId parentLink = Some toIdStr \<or>
                 (case childrenLinks of
                    None \<Rightarrow> False
                  | Some cs \<Rightarrow> find (\<lambda>child. getHrefId child = Some toIdStr) cs \<noteq> None)
              then (True, console_log (Found_existing_parent fromId toId) w1)
              else (False, w1)))"

text \<open>
  The details logged for the first relation found, lines 126-148. The direction compares
  the last segment of the href, a string, with \<open>fromId\<close>, a number, by \<open>===\<close>: never
  equal, so the line always reads "reverse".
\<close>

definition log_relation_details :: "relation_summary \<Rightarrow> 's world \<Rightarrow> 's world" where
  "log_relation_details relation w =
     console_log (Details_direction ''reverse'')
       (console_log (Details_to (to_title relation) (getHrefId (Some (to_href relation))))
         (console_log (Details_from (from_title relation) (getHrefId (Some (from_href relation))))
           (console_log (Details_type (summary_type relation))
             (console_log (Details_relation_id (summary_id relation))
               (console_log Details_header w)))))"

text \<open>\<open>checkExistingRelationship(fromId, toId, type)\<close>, lines 72-161.\<close>

definition checkExistingRelationship ::
  "'s server \<Rightarrow> nat \<Rightarrow> nat \<Rightarrow> string option \<Rightarrow> 's world \<Rightarrow> bool \<times> 's world" where
  "checkExistingRelationship srv fromId toId type w =
     (case checkParentRelationship srv fromId toId (console_log (Checking_for_existing fromId toId) w) of
        (True, w1) \<Rightarrow> (True, console_log (Found_parent_skipping type) w1)
      | (False, w1) \<Rightarrow>
          (let filter = \<lparr>operator = ''='', filter_values = [toString fromId, toString toId]\<rparr>;
               filters = [From filter, To filter]
           in case api_get_relations srv filters w1 of
                (Inl error, w2) \<Rightarrow>
                  (False, error_details error
                            (console_error (Error_checking_existing (message error)) w2))
              | (Inr data, w2) \<Rightarrow>
                  (let w3 = console_log (Api_response data) w2;
                       exists = (total data > 0);
                       w4 = console_log (Relationship_exists exists (total data)) w3
                   in (exists,
                       if exists
                       then (case elements data of
                               [] \<Rightarrow> w4
                             | relation # rest \<Rightarrow> log_relation_details relation w4)
                       else w4))))"

text \<open>
  \<open>createRelationship(fromId, toId, type)\<close>, lines 163-213. \<open>createRelationship_try\<close> is
  the \<open>try\<close> block of lines 164-201: \<open>Inl\<close> is the exception a rejected POST throws
  (\<open>checkExistingRelationship\<close> has its own \<open>catch\<close>). \<open>createRelationship\<close> adds the
  \<open>catch\<close> of lines 202-212; its own result is \<open>Inl\<close> when it throws to its caller.
\<close>

definition createRelationship_try ::
  "'s server \<Rightarrow> nat \<Rightarrow> nat \<Rightarrow> string option \<Rightarrow> 's world \<Rightarrow> (js_error + unit) \<times> 's world" where
  "createRelationship_try srv fromId toId type w =
     (case checkExistingRelationship srv fromId toId type (console_log (Attempting fromId type toId) w) of
        (True, w1) \<Rightarrow> (Inr (), console_log (Already_exists type fromId toId) w1)
      | (False, w1) \<Rightarrow>
          (let payload = \<lparr>payload_type = type, description = ''Created by Jira migration'',
                           lag = 0, payload_to = toId\<rparr>
           in case api_post_relation srv fromId payload (console_log (Creating_payload payload) w1) of
                (Inl error, w2) \<Rightarrow> (Inl error, w2)
              | (Inr data, w2) \<Rightarrow>
                  (Inr (), console_log (Created type fromId toId)
                             (console_log (Creation_response data) w2))))"

definition createRelationship ::
  "'s server \<Rightarrow> nat \<Rightarrow> nat \<Rightarrow> string option \<Rightarrow> 's world \<Rightarrow> (js_error + unit) \<times> 's world" where
  "createRelationship srv fromId toId type w =
     (case createRelationship_try srv fromId toId type w of
        (Inl error, w1) \<Rightarrow>
          (Inr (), error_details error
                     (console_error (Error_creating fromId toId type (message error)) w1))
      | (Inr u, w1) \<Rightarrow> (Inr u, w1))"

text \<open>
  The first half of the loop body of \<open>handleRelationships\<close>, lines 245-291: from one link,
  \<open>relatedIssueKey\<close>, \<open>relationType\<close> and \<open>shouldSkip\<close>. The first two stay
  \<open>undefined\<close> for a link with neither \<open>outwardIssue\<close> nor \<open>inwardIssue\<close>.
\<close>

definition classifyLink :: "issue \<Rightarrow> issue_link \<Rightarrow> string option \<times> string option \<times> bool" where
  "classifyLink issue link =
     (case outwardIssue link of
        Some outward \<Rightarrow>
          (Some (linked_key outward),
           if type_outward link = ''blocks'' then (Some ''blocks'', False)
           else if type_outward link = ''relates to'' then (Some ''relates'', False)
           else if type_outward link = ''is parent of'' then (Some ''includes'', False)
           else if type_outward link = ''duplicates''
             then (Some ''duplicates'', js_gt (created issue) (linked_created outward))
           else (Some ''relates'', False))
      | None \<Rightarrow>
          (case inwardIssue link of
             Some inward \<Rightarrow>
               (Some (linked_key inward),
                if type_inward link = ''is blocked by'' then (Some ''blocked'', False)
                else if type_inward link = ''relates to'' then (Some ''relates'', False)
                else if type_inward link = ''is child of'' then (Some ''partof'', False)
                else if type_inward link = ''is duplicated by''
                  then (Some ''duplicated'', js_lt (created issue) (linked_created inward))
                else (Some ''relates'', False))
           | None \<Rightarrow> (None, None, False)))"

text \<open>
  The loop body of \<open>handleRelationships\<close>, lines 244-334, for one link. The \<open>catch\<close> of
  line 308 is the \<open>Inl\<close> branch: it runs when \<open>createRelationship\<close> throws.
\<close>

definition handleLink :: "'s server \<Rightarrow> issue \<Rightarrow> nat \<Rightarrow> issue_link \<Rightarrow> 's world \<Rightarrow> 's world" where
  "handleLink srv issue fromWorkPackageId link w =
     (case classifyLink issue link of
        (relatedIssueKey, relationType, shouldSkip) \<Rightarrow>
          if shouldSkip then console_log (Skipping_duplicate (key issue)) w
          else
            (case truthy (Map_get (issueToWorkPackageMap w) relatedIssueKey) of
               Some toWorkPackageId \<Rightarrow>
                 (case createRelationship srv fromWorkPackageId toWorkPackageId relationType w of
                    (Inr u, w1) \<Rightarrow> w1
                  | (Inl error, w1) \<Rightarrow>
                      (let w2 = console_error
                                  (Failed_to_create (key issue) relationType relatedIssueKey) w1
                       in w2\<lparr>missingRelationships :=
                               Set_add \<lparr>fromKey = key issue, toKey = relatedIssueKey,
                                        pending_type = relationType\<rparr>
                                 (missingRelationships w2)\<rparr>))
             | None \<Rightarrow>
                 (let w1 = console_log (Skipping_target relatedIssueKey) w
                  in w1\<lparr>missingRelationships :=
                          Set_add \<lparr>fromKey = key issue, toKey = relatedIssueKey,
                                   pending_type = relationType\<rparr>
                            (missingRelationships w1)\<rparr>)))"

text \<open>
  The epic link, lines 221-239, for an issue whose \<open>customfield_10014\<close> is truthy. The
  call of line 226 has no \<open>try\<close> around it: what \<open>createRelationship\<close> throws leaves
  \<open>handleRelationships\<close>.
\<close>

definition handleEpicLink ::
  "'s server \<Rightarrow> issue \<Rightarrow> nat \<Rightarrow> string \<Rightarrow> 's world \<Rightarrow> (js_error + unit) \<times> 's world" where
  "handleEpicLink srv issue fromWorkPackageId epicKey w =
     (case truthy (Map_get (issueToWorkPackageMap w) (Some epicKey)) of
        Some epicWorkPackageId \<Rightarrow>
          createRelationship srv fromWorkPackageId epicWorkPackageId (Some ''partof'') w
      | None \<Rightarrow>
          (let w1 = console_log (Epic_not_found epicKey) w
           in (Inr (), w1\<lparr>missingRelationships :=
                            Set_add \<lparr>fromKey = key issue, toKey = Some epicKey,
                                     pending_type = Some ''partof''\<rparr>
                              (missingRelationships w1)\<rparr>)))"

text \<open>
  \<open>handleRelationships(issue)\<close>, lines 215-335. An array, even an empty one, is truthy,
  so \<open>!issue.fields.issuelinks\<close> holds only for an absent list.
\<close>

definition handleRelationships ::
  "'s server \<Rightarrow> issue \<Rightarrow> 's world \<Rightarrow> (js_error + unit) \<times> 's world" where
  "handleRelationships srv issue w =
     (if issuelinks issue = None \<and> truthy_string (customfield_10014 issue) = None then (Inr (), w)
      else
        (case truthy (Map_get (issueToWorkPackageMap w) (Some (key issue))) of
           None \<Rightarrow> (Inr (), w)
         | Some fromWorkPackageId \<Rightarrow>
             (case (case truthy_string (customfield_10014 issue) of
                      Some epicKey \<Rightarrow> handleEpicLink srv issue fromWorkPackageId epicKey w
                    | None \<Rightarrow> (Inr (), w)) of
                (Inl error, w1) \<Rightarrow> (Inl error, w1)
              | (Inr u, w1) \<Rightarrow>
                  (case issuelinks issue of
                     None \<Rightarrow> (Inr (), w1)
                   | Some links \<Rightarrow>
                       if length links = 0 then (Inr (), w1)
                       else (Inr (), fold (handleLink srv issue fromWorkPackageId) links w1)))))"

text \<open>
  One entry of the retry loop, lines 349-367, and \<open>retryMissingRelationships()\<close>, lines
  337-369: the set is copied to an array, cleared, and the array is walked in insertion
  order.
\<close>

definition retryRelationship :: "'s server \<Rightarrow> pending \<Rightarrow> 's world \<Rightarrow> 's world" where
  "retryRelationship srv rel w =
     (let fromWorkPackageId = truthy (Map_get (issueToWorkPackageMap w) (Some (fromKey rel)));
          toWorkPackageId = truthy (Map_get (issueToWorkPackageMap w) (toKey rel));
          still_missing = console_log (Still_missing (fromKey rel) (pending_type rel) (toKey rel)) w
      in case fromWorkPackageId of
           None \<Rightarrow> still_missing
         | Some fromId \<Rightarrow>
             (case toWorkPackageId of
                None \<Rightarrow> still_missing
              | Some toId \<Rightarrow>
                  (case createRelationship srv fromId toId (pending_type rel) w of
                     (Inr u, w1) \<Rightarrow>
                       console_log
                         (Created_relationship (fromKey rel) (pending_type rel) (toKey rel)) w1
                   | (Inl error, w1) \<Rightarrow>
                       console_error
                         (Failed_to_create (fromKey rel) (pending_type rel) (toKey rel)) w1)))"

definition retryMissingRelationships :: "'s server \<Rightarrow> 's world \<Rightarrow> 's world" where
  "retryMissingRelationships srv w =
     (if length (missingRelationships w) = 0 then w
      else
        (let w1 = console_log (Retrying (length (missingRelationships w))) w;
             retryRelationships = missingRelationships w1;
             w2 = w1\<lparr>missingRelationships := []\<rparr>
         in fold (retryRelationship srv) retryRelationships w2))"

text \<open>
  The first pass of \<open>createRelationships\<close>, lines 381-383: the loop stops at the first
  issue whose \<open>handleRelationships\<close> throws.
\<close>

fun firstPass :: "'s server \<Rightarrow> issue list \<Rightarrow> 's world \<Rightarrow> (js_error + unit) \<times> 's world" where
  "firstPass srv [] w = (Inr (), w)"
| "firstPass srv (issue # issues) w =
     (case handleRelationships srv issue w of
        (Inl error, w1) \<Rightarrow> (Inl error, w1)
      | (Inr u, w1) \<Rightarrow> firstPass srv issues w1)"

text \<open>
  The record the specification says the entry point returns. The module never builds
  one; it is here only so that the value \<open>createRelationships\<close> returns can be compared
  with it.
\<close>

record summary =
  summary_created :: nat
  summary_skipped :: nat
  summary_deferred :: nat
  summary_failed :: nat

text \<open>
  \<open>createRelationships(issues, issueKeyToWorkPackageIdMap)\<close>, lines 371-392. The second
  argument is walked with \<open>Object.entries\<close>: a list of key and id pairs. No path has a
  \<open>return\<close> statement, so the promise resolves to \<open>undefined\<close>: \<open>None\<close> in the first
  component, where \<open>Some\<close> would be a returned summary.
\<close>

definition createRelationships ::
  "'s server \<Rightarrow> issue list \<Rightarrow> (string \<times> nat) list \<Rightarrow> 's world \<Rightarrow> summary option \<times> 's world" where
  "createRelationships srv issues issueKeyToWorkPackageIdMap w =
     (let w1 = console_log Creating_relationships_banner w;
          w2 = w1\<lparr>issueToWorkPackageMap :=
                    fold (\<lambda>(k, i) m. m(k \<mapsto> i)) issueKeyToWorkPackageIdMap
                      (issueToWorkPackageMap w1)\<rparr>
      in case firstPass srv issues w2 of
           (Inl error, w3) \<Rightarrow>
             (None, console_error (Relationship_creation_failed (message error)) w3)
         | (Inr u, w3) \<Rightarrow>
             (None, console_log Complete_banner (retryMissingRelationships srv w3)))"

section \<open>A reference relation store\<close>

text \<open>
  Modelled from the spec: the relation store of section 6, the external system that
  answers the three requests; it is not code of this repository. Every id names a work
  item. The store holds the hierarchy as (child, parent) pairs and the relations in the
  order they were created. Fetch-by-id returns the parent link and the child links of a
  work item; the filtered query returns the relations that satisfy every filter, a
  filter being satisfied when the id on its side is one of its values; create adds a
  relation, and rejects one between a pair that already has a relation or a parent/child
  link (the rule quoted at lines 74-77 and 81 of create-relationships.js).
\<close>

record stored_relation =
  relation_from :: nat
  relation_to :: nat
  relation_type :: "string option"

record store =
  parents :: "(nat \<times> nat) list"
  relations :: "stored_relation list"

definition work_package_href :: "nat \<Rightarrow> string" where
  "work_package_href i = ''/api/v3/work_packages/'' @ toString i"

definition parent_of :: "store \<Rightarrow> nat \<Rightarrow> nat option" where
  "parent_of s i = map_of (parents s) i"

definition children_of :: "store \<Rightarrow> nat \<Rightarrow> nat list" where
  "children_of s i = filter (\<lambda>c. parent_of s c = Some i) (remdups (map fst (parents s)))"

definition store_get_work_package :: "nat \<Rightarrow> store \<Rightarrow> (js_error + work_package_links) \<times> store" where
  "store_get_work_package i s =
     (Inr \<lparr>parent = map_option work_package_href (parent_of s i),
           children = (if children_of s i = [] then None
                       else Some (map (\<lambda>c. Some (work_package_href c)) (children_of s i)))\<rparr>,
      s)"

fun filter_matches :: "stored_relation \<Rightarrow> filter_entry \<Rightarrow> bool" where
  "filter_matches r (From f) = (operator f = ''='' \<and> toString (relation_from r) \<in> set (filter_values f))"
| "filter_matches r (To f) = (operator f = ''='' \<and> toString (relation_to r) \<in> set (filter_values f))"

definition relation_summary_of :: "nat \<times> stored_relation \<Rightarrow> relation_summary" where
  "relation_summary_of ir =
     \<lparr>summary_id = fst ir,
      summary_type = (case relation_type (snd ir) of None \<Rightarrow> [] | Some t \<Rightarrow> t),
      from_title = [], from_href = work_package_href (relation_from (snd ir)),
      to_title = [], to_href = work_package_href (relation_to (snd ir))\<rparr>"

definition store_get_relations :: "filter_entry list \<Rightarrow> store \<Rightarrow> (js_error + relations_page) \<times> store" where
  "store_get_relations fs s =
     (let found = filter (\<lambda>ir. list_all (filter_matches (snd ir)) fs)
                    (zip [0 ..< length (relations s)] (relations s))
      in (Inr \<lparr>total = int (length found), elements = map relation_summary_of found\<rparr>, s))"

definition linked :: "store \<Rightarrow> nat \<Rightarrow> nat \<Rightarrow> bool" where
  "linked s a b =
     (parent_of s a = Some b \<or> parent_of s b = Some a \<or>
      find (\<lambda>r. (relation_from r = a \<and> relation_to r = b) \<or>
                (relation_from r = b \<and> relation_to r = a)) (relations s) \<noteq> None)"

definition store_post_relation :: "nat \<Rightarrow> payload \<Rightarrow> store \<Rightarrow> (js_error + string) \<times> store" where
  "store_post_relation i p s =
     (if linked s i (payload_to p)
      then (Inl \<lparr>message = ''Request failed with status code 422'',
                 response_data = Some ''Relation already exists''\<rparr>, s)
      else (Inr ''created'',
            s\<lparr>relations := relations s @
                 [\<lparr>relation_from = i, relation_to = payload_to p,
                   relation_type = payload_type p\<rparr>]\<rparr>))"

definition store_server :: "store server" where
  "store_server =
     \<lparr>get_work_package = store_get_work_package,
      get_relations = store_get_relations,
      post_relation = store_post_relation\<rparr>"

text \<open>The same store behind a server that rejects every creation.\<close>

definition rejecting_server :: "store server" where
  "rejecting_server =
     \<lparr>get_work_package = store_get_work_package,
      get_relations = store_get_relations,
      post_relation =
        (\<lambda>i p s. (Inl \<lparr>message = ''Request failed with status code 500'',
                         response_data = None\<rparr>, s))\<rparr>"

text \<open>The state in which the module is loaded: nothing sent, nothing logged, both constants empty.\<close>

definition initial_world :: "'s \<Rightarrow> 's world" where
  "initial_world s =
     \<lparr>server_state = s, requests = [], console = [],
      issueToWorkPackageMap = Map.empty, missingRelationships = []\<rparr>"

definition empty_store :: store where
  "empty_store = \<lparr>parents = [], relations = []\<rparr>"

section \<open>Notions used to state the properties\<close>

text \<open>The value of a decimal digit, to read a number back from its digits.\<close>

definition digit_value :: "char \<Rightarrow> nat" where
  "digit_value c = of_char c - 48"

text \<open>The two filters \<open>checkExistingRelationship\<close> sends, lines 92-107.\<close>

definition oracle_filters :: "nat \<Rightarrow> nat \<Rightarrow> filter_entry list" where
  "oracle_filters f t =
     [From \<lparr>operator = ''='', filter_values = [toString f, toString t]\<rparr>,
      To \<lparr>operator = ''='', filter_values = [toString f, toString t]\<rparr>]"

text \<open>The payload \<open>createRelationship\<close> posts, lines 179-188.\<close>

definition creation_payload :: "nat \<Rightarrow> string option \<Rightarrow> payload" where
  "creation_payload t ty =
     \<lparr>payload_type = ty, description = ''Created by Jira migration'', lag = 0, payload_to = t\<rparr>"

text \<open>The creation calls among the requests sent: the work package posted to and the payload.\<close>

fun creations :: "request list \<Rightarrow> (nat \<times> payload) list" where
  "creations [] = []"
| "creations (Post_relation i p # rs) = (i, p) # creations rs"
| "creations (r # rs) = creations rs"

text \<open>
  The calls of \<open>createRelationship\<close> as the console shows them: its first statement
  logs the attempt (line 165), and nothing else does.
\<close>

fun attempts :: "(stream \<times> message) list \<Rightarrow> (nat \<times> string option \<times> nat) list" where
  "attempts [] = []"
| "attempts ((s, Attempting f ty t) # ls) = (f, ty, t) # attempts ls"
| "attempts (l # ls) = attempts ls"

section \<open>Concrete stores and issues\<close>

text \<open>Work item 2 is a child of work item 1; no relations.\<close>

definition hierarchy_store :: store where
  "hierarchy_store = \<lparr>parents = [(2, 1)], relations = []\<rparr>"

text \<open>Work item 1 relates to work item 2; no hierarchy.\<close>

definition related_store :: store where
  "related_store =
     \<lparr>parents = [],
      relations = [\<lparr>relation_from = 1, relation_to = 2, relation_type = Some ''relates''\<rparr>]\<rparr>"

text \<open>PROJ-9 has an epic link to PROJ-1 and blocks PROJ-999.\<close>

definition proj9 :: issue where
  "proj9 =
     \<lparr>key = ''PROJ-9'', created = Some ''2024-01-09T09:00:00.000+0000'',
      customfield_10014 = Some ''PROJ-1'',
      issuelinks = Some [\<lparr>type_outward = ''blocks'', type_inward = ''is blocked by'',
                           outwardIssue = Some \<lparr>linked_key = ''PROJ-999'', linked_created = None\<rparr>,
                           inwardIssue = None\<rparr>]\<rparr>"

text \<open>
  What the reference store holds between two work items: a parent link either way, or a
  relation whose two ends are both among the two ids.
\<close>

definition store_answer :: "store \<Rightarrow> nat \<Rightarrow> nat \<Rightarrow> bool" where
  "store_answer s a b =
     (parent_of s a = Some b \<or> parent_of s b = Some a \<or>
      filter (\<lambda>r. relation_from r \<in> {a, b} \<and> relation_to r \<in> {a, b}) (relations s) \<noteq> [])"

text \<open>
  The calls of \<open>createRelationship\<close> the retry pass owes to a list of pending
  entries under a mapping: one for each entry whose two keys resolve, in order.
\<close>

definition retry_attempts ::
  "(string \<rightharpoonup> nat) \<Rightarrow> pending list \<Rightarrow> (nat \<times> string option \<times> nat) list" where
  "retry_attempts m rels =
     concat (map (\<lambda>rel. case truthy (Map_get m (Some (fromKey rel))) of
                          None \<Rightarrow> []
                        | Some f \<Rightarrow>
                            (case truthy (Map_get m (toKey rel)) of
                               None \<Rightarrow> []
                             | Some t \<Rightarrow> [(f, pending_type rel, t)])) rels)"

text \<open>PROJ-5 has the epic link PROJ-1 and no links.\<close>

definition proj5 :: issue where
  "proj5 =
     \<lparr>key = ''PROJ-5'', created = Some ''2024-01-05T09:00:00.000+0000'',
      customfield_10014 = Some ''PROJ-1'', issuelinks = Some []\<rparr>"

text \<open>
  X is PROJ-1 and Y is PROJ-2, created a day later. X carries the outward "duplicates"
  link to Y, and Y the inward "is duplicated by" link to X.
\<close>

definition issue_X :: issue where
  "issue_X =
     \<lparr>key = ''PROJ-1'', created = Some ''2024-01-01T09:00:00.000+0000'',
      customfield_10014 = None,
      issuelinks = Some [\<lparr>type_outward = ''duplicates'', type_inward = ''is duplicated by'',
                           outwardIssue = Some \<lparr>linked_key = ''PROJ-2'',
                             linked_created = Some ''2024-01-02T09:00:00.000+0000''\<rparr>,
                           inwardIssue = None\<rparr>]\<rparr>"

definition issue_Y :: issue where
  "issue_Y =
     \<lparr>key = ''PROJ-2'', created = Some ''2024-01-02T09:00:00.000+0000'',
      customfield_10014 = None,
      issuelinks = Some [\<lparr>type_outward = ''duplicates'', type_inward = ''is duplicated by'',
                           outwardIssue = None,
                           inwardIssue = Some \<lparr>linked_key = ''PROJ-1'',
                             linked_created = Some ''2024-01-01T09:00:00.000+0000''\<rparr>\<rparr>]\<rparr>"

text \<open>PROJ-3 blocks PROJ-4.\<close>

definition proj3 :: issue where
  "proj3 =
     \<lparr>key = ''PROJ-3'', created = Some ''2024-01-03T09:00:00.000+0000'',
      customfield_10014 = None,
      issuelinks = Some [\<lparr>type_outward = ''blocks'', type_inward = ''is blocked by'',
                           outwardIssue = Some \<lparr>linked_key = ''PROJ-4'', linked_created = None\<rparr>,
                           inwardIssue = None\<rparr>]\<rparr>"

text \<open>
  A state of the module over the empty reference store, with the given entries in
  \<open>issueToWorkPackageMap\<close> and the given \<open>missingRelationships\<close>.
\<close>

definition module_state :: "(string \<times> nat) list \<Rightarrow> pending list \<Rightarrow> store world" where
  "module_state entries rels =
     \<lparr>server_state = empty_store, requests = [], console = [],
      issueToWorkPackageMap = map_of entries, missingRelationships = rels\<rparr>"

section \<open>What each call leaves unchanged\<close>

lemma console_log_fields [simp]:
  "server_state (console_log m w) = server_state w"
  "requests (console_log m w) = requests w"
  "console (console_log m w) = console w @ [(Stdout, m)]"
  "issueToWorkPackageMap (console_log m w) = issueToWorkPackageMap w"
  "missingRelationships (console_log m w) = missingRelationships w"
  by (simp_all add: console_log_def)

lemma console_error_fields [simp]:
  "server_state (console_error m w) = server_state w"
  "requests (console_error m w) = requests w"
  "console (console_error m w) = console w @ [(Stderr, m)]"
  "issueToWorkPackageMap (console_error m w) = issueToWorkPackageMap w"
  "missingRelationships (console_error m w) = missingRelationships w"
  by (simp_all add: console_error_def)

lemma error_details_fields [simp]:
  "server_state (error_details e w) = server_state w"
  "requests (error_details e w) = requests w"
  "issueToWorkPackageMap (error_details e w) = issueToWorkPackageMap w"
  "missingRelationships (error_details e w) = missingRelationships w"
  by (simp_all add: error_details_def split: option.splits)

lemma log_relation_details_fields [simp]:
  "server_state (log_relation_details r w) = server_state w"
  "requests (log_relation_details r w) = requests w"
  "issueToWorkPackageMap (log_relation_details r w) = issueToWorkPackageMap w"
  "missingRelationships (log_relation_details r w) = missingRelationships w"
  by (simp_all add: log_relation_details_def)



lemma api_get_work_package_fields [simp]:
  "requests (snd (api_get_work_package srv i w)) = requests w @ [Get_work_package i]"
  "console (snd (api_get_work_package srv i w)) = console w"
  "issueToWorkPackageMap (snd (api_get_work_package srv i w)) = issueToWorkPackageMap w"
  "missingRelationships (snd (api_get_work_package srv i w)) = missingRelationships w"
  "server_state (snd (api_get_work_package srv i w)) = snd (get_work_package srv i (server_state w))"
  "fst (api_get_work_package srv i w) = fst (get_work_package srv i (server_state w))"
  by (simp_all add: api_get_work_package_def split_beta)

lemma api_get_relations_fields [simp]:
  "requests (snd (api_get_relations srv fs w)) = requests w @ [Get_relations fs]"
  "console (snd (api_get_relations srv fs w)) = console w"
  "issueToWorkPackageMap (snd (api_get_relations srv fs w)) = issueToWorkPackageMap w"
  "missingRelationships (snd (api_get_relations srv fs w)) = missingRelationships w"
  "server_state (snd (api_get_relations srv fs w)) = snd (get_relations srv fs (server_state w))"
  "fst (api_get_relations srv fs w) = fst (get_relations srv fs (server_state w))"
  by (simp_all add: api_get_relations_def split_beta)

lemma api_post_relation_fields [simp]:
  "requests (snd (api_post_relation srv i p w)) = requests w @ [Post_relation i p]"
  "console (snd (api_post_relation srv i p w)) = console w"
  "issueToWorkPackageMap (snd (api_post_relation srv i p w)) = issueToWorkPackageMap w"
  "missingRelationships (snd (api_post_relation srv i p w)) = missingRelationships w"
  "server_state (snd (api_post_relation srv i p w)) = snd (post_relation srv i p (server_state w))"
  "fst (api_post_relation srv i p w) = fst (post_relation srv i p (server_state w))"
  by (simp_all add: api_post_relation_def split_beta)

lemma checkParentRelationship_fields [simp]:
  "requests (snd (checkParentRelationship srv f t w)) = requests w @ [Get_work_package f]"
  "issueToWorkPackageMap (snd (checkParentRelationship srv f t w)) = issueToWorkPackageMap w"
  "missingRelationships (snd (checkParentRelationship srv f t w)) = missingRelationships w"
proof -
  obtain r w1 where a: "api_get_work_package srv f w = (r, w1)"
    by (cases "api_get_work_package srv f w")
  have b: "requests w1 = requests w @ [Get_work_package f]"
      "issueToWorkPackageMap w1 = issueToWorkPackageMap w"
      "missingRelationships w1 = missingRelationships w"
    using api_get_work_package_fields(1,3,4) [of srv f w] by (simp_all add: a)
  show "requests (snd (checkParentRelationship srv f t w)) = requests w @ [Get_work_package f]"
    by (cases r) (simp_all add: checkParentRelationship_def a b Let_def)
  show "issueToWorkPackageMap (snd (checkParentRelationship srv f t w)) = issueToWorkPackageMap w"
    by (cases r) (simp_all add: checkParentRelationship_def a b Let_def)
  show "missingRelationships (snd (checkParentRelationship srv f t w)) = missingRelationships w"
    by (cases r) (simp_all add: checkParentRelationship_def a b Let_def)
qed


lemma checkParentRelationship_result:
  "fst (checkParentRelationship srv f t w) =
     (case fst (get_work_package srv f (server_state w)) of
        Inl e \<Rightarrow> False
      | Inr links \<Rightarrow>
          getHrefId (parent links) = Some (toString t) \<or>
          (case children links of
             None \<Rightarrow> False
           | Some cs \<Rightarrow> find (\<lambda>child. getHrefId child = Some (toString t)) cs \<noteq> None))"
proof -
  obtain r w1 where a: "api_get_work_package srv f w = (r, w1)"
    by (cases "api_get_work_package srv f w")
  have b: "fst (get_work_package srv f (server_state w)) = r"
    using api_get_work_package_fields(6) [of srv f w] by (simp add: a)
  show ?thesis
    by (cases r) (simp_all add: checkParentRelationship_def a b Let_def)
qed



lemma checkParentRelationship_server_state:
  "server_state (snd (checkParentRelationship srv f t w)) =
     snd (get_work_package srv f (server_state w))"
proof -
  obtain r w1 where a: "api_get_work_package srv f w = (r, w1)"
    by (cases "api_get_work_package srv f w")
  have b: "server_state w1 = snd (get_work_package srv f (server_state w))"
    using api_get_work_package_fields(5) [of srv f w] by (simp add: a)
  show ?thesis
    by (cases r) (simp_all add: checkParentRelationship_def a b Let_def)
qed


lemma checkExistingRelationship_cases:
  assumes "checkParentRelationship srv f t (console_log (Checking_for_existing f t) w) = (p, w1)"
  shows "p \<Longrightarrow> checkExistingRelationship srv f t ty w = (True, console_log (Found_parent_skipping ty) w1)"
    and "\<not> p \<Longrightarrow> api_get_relations srv (oracle_filters f t) w1 = (Inl e, w2) \<Longrightarrow>
           checkExistingRelationship srv f t ty w =
             (False, error_details e (console_error (Error_checking_existing (message e)) w2))"
    and "\<not> p \<Longrightarrow> api_get_relations srv (oracle_filters f t) w1 = (Inr d, w2) \<Longrightarrow>
           fst (checkExistingRelationship srv f t ty w) = (total d > 0) \<and>
           requests (snd (checkExistingRelationship srv f t ty w)) = requests w2 \<and>
           server_state (snd (checkExistingRelationship srv f t ty w)) = server_state w2 \<and>
           issueToWorkPackageMap (snd (checkExistingRelationship srv f t ty w)) = issueToWorkPackageMap w2 \<and>
           missingRelationships (snd (checkExistingRelationship srv f t ty w)) = missingRelationships w2"
  using assms
  by (simp_all add: checkExistingRelationship_def oracle_filters_def Let_def split: list.splits)



lemma checkExistingRelationship_fields [simp]:
  "issueToWorkPackageMap (snd (checkExistingRelationship srv f t ty w)) = issueToWorkPackageMap w"
  "missingRelationships (snd (checkExistingRelationship srv f t ty w)) = missingRelationships w"
  "requests (snd (checkExistingRelationship srv f t ty w)) =
     requests w @ Get_work_package f #
       (if fst (checkParentRelationship srv f t (console_log (Checking_for_existing f t) w))
        then [] else [Get_relations (oracle_filters f t)])"
proof -
  let ?w0 = "console_log (Checking_for_existing f t) w"
  obtain p w1 where a: "checkParentRelationship srv f t ?w0 = (p, w1)"
    by (cases "checkParentRelationship srv f t ?w0")
  have b: "requests w1 = requests w @ [Get_work_package f]"
      "issueToWorkPackageMap w1 = issueToWorkPackageMap w"
      "missingRelationships w1 = missingRelationships w"
    using checkParentRelationship_fields [of srv f t ?w0] by (simp_all add: a)
  obtain r w2 where c: "api_get_relations srv (oracle_filters f t) w1 = (r, w2)"
    by (cases "api_get_relations srv (oracle_filters f t) w1")
  have d: "requests w2 = requests w1 @ [Get_relations (oracle_filters f t)]"
      "issueToWorkPackageMap w2 = issueToWorkPackageMap w1"
      "missingRelationships w2 = missingRelationships w1"
    using api_get_relations_fields(1,3,4) [of srv "oracle_filters f t" w1] by (simp_all add: c)
  have "issueToWorkPackageMap (snd (checkExistingRelationship srv f t ty w)) = issueToWorkPackageMap w \<and>
        missingRelationships (snd (checkExistingRelationship srv f t ty w)) = missingRelationships w \<and>
        requests (snd (checkExistingRelationship srv f t ty w)) =
          requests w @ Get_work_package f # (if p then [] else [Get_relations (oracle_filters f t)])"
  proof (cases p)
    case True
    then show ?thesis
      using checkExistingRelationship_cases(1) [OF a, of ty] by (simp add: b)
  next
    case False
    show ?thesis
    proof (cases r)
      case (Inl e)
      then show ?thesis
        using checkExistingRelationship_cases(2) [OF a False, of e w2 ty] c False
        by (simp add: b d)
    next
      case (Inr dat)
      then show ?thesis
        using checkExistingRelationship_cases(3) [OF a False, of dat w2 ty] c False
        by (simp add: b d)
    qed
  qed
  then show
    "issueToWorkPackageMap (snd (checkExistingRelationship srv f t ty w)) = issueToWorkPackageMap w"
    "missingRelationships (snd (checkExistingRelationship srv f t ty w)) = missingRelationships w"
    "requests (snd (checkExistingRelationship srv f t ty w)) =
       requests w @ Get_work_package f #
         (if fst (checkParentRelationship srv f t (console_log (Checking_for_existing f t) w))
          then [] else [Get_relations (oracle_filters f t)])"
    by (simp_all add: a)
qed


lemma creations_append [simp]: "creations (xs @ ys) = creations xs @ creations ys"
  by (induction xs rule: creations.induct) simp_all

lemma attempts_append [simp]: "attempts (xs @ ys) = attempts xs @ attempts ys"
  by (induction xs rule: attempts.induct) simp_all

lemma createRelationship_try_cases:
  assumes "checkExistingRelationship srv f t ty (console_log (Attempting f ty t) w) = (ex, w1)"
  shows "ex \<Longrightarrow> createRelationship_try srv f t ty w = (Inr (), console_log (Already_exists ty f t) w1)"
    and "\<not> ex \<Longrightarrow>
           api_post_relation srv f (creation_payload t ty)
             (console_log (Creating_payload (creation_payload t ty)) w1) = (Inl e, w2) \<Longrightarrow>
           createRelationship_try srv f t ty w = (Inl e, w2)"
    and "\<not> ex \<Longrightarrow>
           api_post_relation srv f (creation_payload t ty)
             (console_log (Creating_payload (creation_payload t ty)) w1) = (Inr d, w2) \<Longrightarrow>
           createRelationship_try srv f t ty w =
             (Inr (), console_log (Created ty f t) (console_log (Creation_response d) w2))"
  using assms
  by (simp_all add: createRelationship_try_def creation_payload_def Let_def)

lemma createRelationship_never_throws: "fst (createRelationship srv f t ty w) = Inr ()"
proof (cases "createRelationship_try srv f t ty w")
  case (Pair r w1)
  then show ?thesis
    by (cases r) (simp_all add: createRelationship_def)
qed



lemma attempts_console_log [simp]:
  "attempts (console (console_log m w)) = attempts (console w) @ attempts [(Stdout, m)]"
  "attempts (console (console_error m w)) = attempts (console w) @ attempts [(Stderr, m)]"
  by simp_all

lemma attempts_error_details [simp]:
  "attempts (console (error_details e w)) = attempts (console w)"
  by (simp add: error_details_def split: option.splits)

lemma attempts_log_relation_details [simp]:
  "attempts (console (log_relation_details r w)) = attempts (console w)"
  by (simp add: log_relation_details_def)

lemma attempts_checkParentRelationship [simp]:
  "attempts (console (snd (checkParentRelationship srv f t w))) = attempts (console w)"
proof -
  obtain r w1 where a: "api_get_work_package srv f w = (r, w1)"
    by (cases "api_get_work_package srv f w")
  have b: "console w1 = console w"
    using api_get_work_package_fields(2) [of srv f w] by (simp add: a)
  show ?thesis
    by (cases r) (simp_all add: checkParentRelationship_def a b Let_def)
qed

lemma attempts_checkExistingRelationship [simp]:
  "attempts (console (snd (checkExistingRelationship srv f t ty w))) = attempts (console w)"
proof -
  let ?w0 = "console_log (Checking_for_existing f t) w"
  obtain p w1 where a: "checkParentRelationship srv f t ?w0 = (p, w1)"
    by (cases "checkParentRelationship srv f t ?w0")
  have b: "attempts (console w1) = attempts (console w)"
    using attempts_checkParentRelationship [of srv f t ?w0] by (simp add: a)
  obtain r w2 where c: "api_get_relations srv (oracle_filters f t) w1 = (r, w2)"
    by (cases "api_get_relations srv (oracle_filters f t) w1")
  have d: "console w2 = console w1"
    using api_get_relations_fields(2) [of srv "oracle_filters f t" w1] by (simp add: c)
  show ?thesis
  proof (cases p)
    case True
    then show ?thesis
      using checkExistingRelationship_cases(1) [OF a, of ty] by (simp add: b)
  next
    case False
    show ?thesis
    proof (cases r)
      case (Inl e)
      then show ?thesis
        using checkExistingRelationship_cases(2) [OF a False, of e w2 ty] c False
        by (simp add: b d)
    next
      case (Inr dat)
      then show ?thesis
        using a c False
        by (simp add: checkExistingRelationship_def oracle_filters_def Let_def b d split: list.splits)
    qed
  qed
qed

lemma createRelationship_fields [simp]:
  "issueToWorkPackageMap (snd (createRelationship srv f t ty w)) = issueToWorkPackageMap w"
  "missingRelationships (snd (createRelationship srv f t ty w)) = missingRelationships w"
  "requests (snd (createRelationship srv f t ty w)) =
     requests (snd (checkExistingRelationship srv f t ty (console_log (Attempting f ty t) w))) @
     (if fst (checkExistingRelationship srv f t ty (console_log (Attempting f ty t) w)) then []
      else [Post_relation f (creation_payload t ty)])"
  "attempts (console (snd (createRelationship srv f t ty w))) = attempts (console w) @ [(f, ty, t)]"
proof -
  let ?w0 = "console_log (Attempting f ty t) w"
  let ?p = "creation_payload t ty"
  obtain ex w1 where a: "checkExistingRelationship srv f t ty ?w0 = (ex, w1)"
    by (cases "checkExistingRelationship srv f t ty ?w0")
  have b: "issueToWorkPackageMap w1 = issueToWorkPackageMap w"
      "missingRelationships w1 = missingRelationships w"
      "attempts (console w1) = attempts (console w) @ [(f, ty, t)]"
    using checkExistingRelationship_fields(1,2) [of srv f t ty ?w0]
      attempts_checkExistingRelationship [of srv f t ty ?w0]
    by (simp_all add: a)
  obtain r w2 where c: "api_post_relation srv f ?p (console_log (Creating_payload ?p) w1) = (r, w2)"
    by (cases "api_post_relation srv f ?p (console_log (Creating_payload ?p) w1)")
  have d: "requests w2 = requests w1 @ [Post_relation f ?p]"
      "issueToWorkPackageMap w2 = issueToWorkPackageMap w1"
      "missingRelationships w2 = missingRelationships w1"
      "attempts (console w2) = attempts (console w1)"
    using api_post_relation_fields(1,2,3,4) [of srv f ?p "console_log (Creating_payload ?p) w1"]
    by (simp_all add: c)
  have "issueToWorkPackageMap (snd (createRelationship srv f t ty w)) = issueToWorkPackageMap w \<and>
        missingRelationships (snd (createRelationship srv f t ty w)) = missingRelationships w \<and>
        requests (snd (createRelationship srv f t ty w)) =
          requests w1 @ (if ex then [] else [Post_relation f ?p]) \<and>
        attempts (console (snd (createRelationship srv f t ty w))) = attempts (console w) @ [(f, ty, t)]"
  proof (cases ex)
    case True
    then show ?thesis
      using createRelationship_try_cases(1) [OF a] by (simp add: createRelationship_def b)
  next
    case False
    show ?thesis
    proof (cases r)
      case (Inl e)
      then show ?thesis
        using createRelationship_try_cases(2) [OF a False, of e w2] c
        by (simp add: createRelationship_def b d False)
    next
      case (Inr dat)
      then show ?thesis
        using createRelationship_try_cases(3) [OF a False, of dat w2] c
        by (simp add: createRelationship_def b d False)
    qed
  qed
  then show
    "issueToWorkPackageMap (snd (createRelationship srv f t ty w)) = issueToWorkPackageMap w"
    "missingRelationships (snd (createRelationship srv f t ty w)) = missingRelationships w"
    "requests (snd (createRelationship srv f t ty w)) =
       requests (snd (checkExistingRelationship srv f t ty (console_log (Attempting f ty t) w))) @
       (if fst (checkExistingRelationship srv f t ty (console_log (Attempting f ty t) w)) then []
        else [Post_relation f (creation_payload t ty)])"
    "attempts (console (snd (createRelationship srv f t ty w))) = attempts (console w) @ [(f, ty, t)]"
    by (simp_all add: a)
qed


lemma take_past_prefix [simp]:
  "take (Suc (length xs)) (xs @ y # ys) = xs @ [y]"
  "take (Suc (length xs)) ((xs @ y # ys) @ zs) = xs @ [y]"
  by simp_all

section \<open>Ids, their digits and hrefs\<close>

lemma js_split_not_empty [simp]: "js_split c s \<noteq> []"
proof (induction s)
  case Nil
  show ?case by simp
next
  case (Cons x s)
  then show ?case
    by (cases "js_split c s") simp_all
qed

lemma js_split_no_separator: "c \<notin> set s \<Longrightarrow> js_split c s = [s]"
proof (induction s)
  case Nil
  show ?case by simp
next
  case (Cons x s)
  then have "x \<noteq> c" "js_split c s = [s]" by auto
  then show ?case by simp
qed

lemma js_split_append: "js_split c (p @ c # s) = js_split c p @ js_split c s"
proof (induction p)
  case Nil
  show ?case by simp
next
  case (Cons x p)
  then show ?case
    by (cases "js_split c p") simp_all
qed

lemma last_js_split: "c \<notin> set s \<Longrightarrow> last (js_split c (p @ c # s)) = s"
  by (simp add: js_split_append js_split_no_separator)

lemma less_10_cases:
  "(d::nat) < 10 \<Longrightarrow>
     d = 0 \<or> d = 1 \<or> d = 2 \<or> d = 3 \<or> d = 4 \<or> d = 5 \<or> d = 6 \<or> d = 7 \<or> d = 8 \<or> d = 9"
  by arith

lemma digit_less_10: "d < 10 \<Longrightarrow> digit d \<in> set ''0123456789''"
  using less_10_cases [of d] by (auto simp: digit_def)

lemma set_toString: "set (toString n) \<subseteq> set ''0123456789''"
proof (induction n rule: toString.induct)
  case (1 n)
  show ?case
  proof (cases "n < 10")
    case True
    then show ?thesis
      using digit_less_10 [of n] by (subst toString.simps) simp
  next
    case False
    then show ?thesis
      using 1 digit_less_10 [of "n mod 10"] by (subst toString.simps) simp
  qed
qed

lemma slash_not_in_toString: "CHR ''/'' \<notin> set (toString n)"
  using set_toString [of n] by auto

lemma getHrefId_work_package_href [simp]:
  "getHrefId (Some (work_package_href n)) = Some (toString n)"
proof -
  have "work_package_href n = ''/api/v3/work_packages'' @ CHR ''/'' # toString n"
    by (simp add: work_package_href_def)
  then have "last (js_split CHR ''/'' (work_package_href n)) = toString n"
    using last_js_split [OF slash_not_in_toString, of "''/api/v3/work_packages''" n]
    by simp
  then show ?thesis
    by (simp add: getHrefId_def js_pop_def)
qed

lemma digit_value_digit: "d < 10 \<Longrightarrow> digit_value (digit d) = d"
  using less_10_cases [of d] by (auto simp: digit_def digit_value_def)

lemma toString_value:
  "foldl (\<lambda>a c. 10 * a + digit_value c) 0 (toString n) = n"
proof (induction n rule: toString.induct)
  case (1 n)
  show ?case
  proof (cases "n < 10")
    case True
    then show ?thesis
      by (subst toString.simps) (simp add: digit_value_digit)
  next
    case False
    then show ?thesis
      using 1 by (subst toString.simps) (simp add: digit_value_digit)
  qed
qed

lemma toString_inject [simp]: "toString a = toString b \<longleftrightarrow> a = b"
proof
  assume "toString a = toString b"
  then have "foldl (\<lambda>a c. 10 * a + digit_value c) 0 (toString a) =
             foldl (\<lambda>a c. 10 * a + digit_value c) 0 (toString b)"
    by simp
  then show "a = b"
    by (simp only: toString_value)
next
  assume "a = b"
  then show "toString a = toString b" by simp
qed

lemma getHrefId_None [simp]: "getHrefId None = None"
  by (simp add: getHrefId_def)

text \<open>The definitions to unfold when a run is evaluated on concrete values.\<close>

lemmas run =
  checkExistingRelationship_def checkParentRelationship_def createRelationship_def
  createRelationship_try_def store_server_def rejecting_server_def api_get_work_package_def
  api_get_relations_def api_post_relation_def store_get_work_package_def
  store_get_relations_def store_post_relation_def initial_world_def console_log_def
  console_error_def error_details_def log_relation_details_def parent_of_def children_of_def
  linked_def Let_def relation_summary_of_def truthy_def truthy_string_def Map_get_def
  Set_add_def js_gt_def js_lt_def classifyLink_def handleLink_def handleEpicLink_def
  handleRelationships_def retryRelationship_def retryMissingRelationships_def
  createRelationships_def oracle_filters_def creation_payload_def empty_store_def

section \<open>The existence check on the reference store\<close>

lemma store_server_fields [simp]:
  "get_work_package store_server = store_get_work_package"
  "get_relations store_server = store_get_relations"
  "post_relation store_server = store_post_relation"
  by (simp_all add: store_server_def)

lemma getHrefId_parent_href:
  "getHrefId (map_option work_package_href p) = Some (toString b) \<longleftrightarrow> p = Some b"
  by (cases p) simp_all

lemma find_child_href:
  "(\<exists>y. find (\<lambda>child. getHrefId child = Some (toString b))
          (map (\<lambda>c. Some (work_package_href c)) cs) = Some y) \<longleftrightarrow> b \<in> set cs"
proof -
  have "find (\<lambda>child. getHrefId child = Some (toString b))
          (map (\<lambda>c. Some (work_package_href c)) cs) = None \<longleftrightarrow> b \<notin> set cs"
    by (auto simp: find_None_iff)
  then show ?thesis
    by (metis not_None_eq)
qed

lemma children_of_iff: "b \<in> set (children_of s a) \<longleftrightarrow> parent_of s b = Some a"
  by (auto simp: children_of_def parent_of_def dest: map_of_SomeD intro: rev_image_eqI)

lemma store_checkParentRelationship:
  "fst (checkParentRelationship store_server a b w) =
     (parent_of (server_state w) a = Some b \<or> parent_of (server_state w) b = Some a)"
proof -
  let ?s = "server_state w"
  let ?links = "\<lparr>parent = map_option work_package_href (parent_of ?s a),
                 children = (if children_of ?s a = [] then None
                             else Some (map (\<lambda>c. Some (work_package_href c)) (children_of ?s a)))\<rparr>"
  have g: "fst (get_work_package store_server a ?s) = Inr ?links"
    by (simp add: store_get_work_package_def)
  have k: "(case children ?links of
              None \<Rightarrow> False
            | Some cs \<Rightarrow> find (\<lambda>child. getHrefId child = Some (toString b)) cs \<noteq> None) =
           (parent_of ?s b = Some a)"
  proof (cases "children_of ?s a = []")
    case True
    then show ?thesis
      using children_of_iff [of b ?s a] by simp
  next
    case False
    then show ?thesis
      by (simp add: find_child_href children_of_iff)
  qed
  have "fst (checkParentRelationship store_server a b w) =
          (getHrefId (parent ?links) = Some (toString b) \<or>
           (case children ?links of
              None \<Rightarrow> False
            | Some cs \<Rightarrow> find (\<lambda>child. getHrefId child = Some (toString b)) cs \<noteq> None))"
    by (simp only: checkParentRelationship_result g sum.case)
  then show ?thesis
    by (simp only: k) (simp add: getHrefId_parent_href)
qed

lemma store_checkParentRelationship_state [simp]:
  "server_state (snd (checkParentRelationship store_server a b w)) = server_state w"
  by (simp add: checkParentRelationship_server_state store_get_work_package_def)

lemma filter_zip_empty:
  "filter (\<lambda>ir. P (snd ir)) (zip [0 ..< length rs] rs) = [] \<longleftrightarrow> filter P rs = []"
proof -
  have a: "map snd (zip [0 ..< length rs] rs) = rs"
    by (simp add: map_snd_zip)
  have "filter P (map snd (zip [0 ..< length rs] rs)) =
        map snd (filter (P \<circ> snd) (zip [0 ..< length rs] rs))"
    by (simp only: filter_map)
  then have "filter P rs = map snd (filter (\<lambda>ir. P (snd ir)) (zip [0 ..< length rs] rs))"
    by (simp only: a comp_def)
  then show ?thesis
    by simp
qed

lemma oracle_filters_match:
  "list_all (filter_matches r) (oracle_filters a b) \<longleftrightarrow>
     relation_from r \<in> {a, b} \<and> relation_to r \<in> {a, b}"
  by (auto simp: oracle_filters_def)

lemma store_get_relations_total:
  "store_get_relations (oracle_filters a b) s = (Inr d, s') \<Longrightarrow>
     s' = s \<and>
     (total d > 0 \<longleftrightarrow>
        filter (\<lambda>r. relation_from r \<in> {a, b} \<and> relation_to r \<in> {a, b}) (relations s) \<noteq> [])"
  using filter_zip_empty
    [of "\<lambda>r. relation_from r \<in> {a, b} \<and> relation_to r \<in> {a, b}" "relations s"]
  by (auto simp: store_get_relations_def Let_def oracle_filters_match)

lemma store_checkExistingRelationship:
  "fst (checkExistingRelationship store_server a b ty w) = store_answer (server_state w) a b"
proof -
  let ?w0 = "console_log (Checking_for_existing a b) w"
  obtain p w1 where c: "checkParentRelationship store_server a b ?w0 = (p, w1)"
    by (cases "checkParentRelationship store_server a b ?w0")
  have p: "p = (parent_of (server_state w) a = Some b \<or> parent_of (server_state w) b = Some a)"
    using store_checkParentRelationship [of a b ?w0] by (simp add: c)
  have s1: "server_state w1 = server_state w"
    using store_checkParentRelationship_state [of a b ?w0] by (simp add: c)
  show ?thesis
  proof (cases p)
    case True
    then show ?thesis
      using checkExistingRelationship_cases(1) [OF c, of ty] p by (auto simp: store_answer_def)
  next
    case False
    obtain r w2 where g: "api_get_relations store_server (oracle_filters a b) w1 = (r, w2)"
      by (cases "api_get_relations store_server (oracle_filters a b) w1")
    have "r = fst (store_get_relations (oracle_filters a b) (server_state w))"
      using api_get_relations_fields(6) [of store_server "oracle_filters a b" w1]
      by (simp add: g s1)
    then obtain d where d: "r = Inr d"
        "store_get_relations (oracle_filters a b) (server_state w) =
           (Inr d, snd (store_get_relations (oracle_filters a b) (server_state w)))"
      by (cases "store_get_relations (oracle_filters a b) (server_state w)")
         (auto simp: store_get_relations_def Let_def)
    show ?thesis
      using checkExistingRelationship_cases(3) [OF c False, of d w2 ty] g d(1)
        store_get_relations_total [OF d(2)] False p
      by (auto simp: store_answer_def)
  qed
qed

lemma store_answer_commute: "store_answer s a b = store_answer s b a"
  by (auto simp: store_answer_def insert_commute)

section \<open>The first pass\<close>

lemma createRelationship_returns:
  "createRelationship srv f t ty w = (Inr (), snd (createRelationship srv f t ty w))"
  using createRelationship_never_throws [of srv f t ty w]
  by (cases "createRelationship srv f t ty w") simp

lemma handleLink_cases:
  assumes "classifyLink issue link = (k, ty, skip)"
  shows "skip \<Longrightarrow> handleLink srv issue f link w = console_log (Skipping_duplicate (key issue)) w"
    and "\<not> skip \<Longrightarrow> truthy (Map_get (issueToWorkPackageMap w) k) = Some t \<Longrightarrow>
           handleLink srv issue f link w = snd (createRelationship srv f t ty w)"
    and "\<not> skip \<Longrightarrow> truthy (Map_get (issueToWorkPackageMap w) k) = None \<Longrightarrow>
           handleLink srv issue f link w =
             (console_log (Skipping_target k) w)
               \<lparr>missingRelationships :=
                  Set_add \<lparr>fromKey = key issue, toKey = k, pending_type = ty\<rparr>
                    (missingRelationships w)\<rparr>"
proof -
  show "skip \<Longrightarrow> handleLink srv issue f link w = console_log (Skipping_duplicate (key issue)) w"
    using assms by (simp add: handleLink_def)
  show "\<not> skip \<Longrightarrow> truthy (Map_get (issueToWorkPackageMap w) k) = Some t \<Longrightarrow>
           handleLink srv issue f link w = snd (createRelationship srv f t ty w)"
  proof -
    assume a: "\<not> skip" "truthy (Map_get (issueToWorkPackageMap w) k) = Some t"
    obtain w1 where cr: "createRelationship srv f t ty w = (Inr (), w1)"
      using createRelationship_returns [of srv f t ty w] by blast
    show ?thesis
      using assms a by (simp add: handleLink_def cr)
  qed
  show "\<not> skip \<Longrightarrow> truthy (Map_get (issueToWorkPackageMap w) k) = None \<Longrightarrow>
           handleLink srv issue f link w =
             (console_log (Skipping_target k) w)
               \<lparr>missingRelationships :=
                  Set_add \<lparr>fromKey = key issue, toKey = k, pending_type = ty\<rparr>
                    (missingRelationships w)\<rparr>"
    using assms by (simp add: handleLink_def Let_def)
qed

lemma set_Set_add [simp]: "set (Set_add x xs) = insert x (set xs)"
  by (auto simp: Set_add_def)

lemma distinct_Set_add [simp]: "distinct (Set_add x xs) = distinct xs"
  by (simp add: Set_add_def)

lemma handleLink_fields:
  "issueToWorkPackageMap (handleLink srv issue f link w) = issueToWorkPackageMap w \<and>
   set (missingRelationships w) \<subseteq> set (missingRelationships (handleLink srv issue f link w)) \<and>
   (\<exists>xs. attempts (console (handleLink srv issue f link w)) = attempts (console w) @ xs)"
proof -
  obtain k ty skip where c: "classifyLink issue link = (k, ty, skip)"
    by (cases "classifyLink issue link")
  show ?thesis
  proof (cases skip)
    case True
    then show ?thesis
      using handleLink_cases(1) [OF c, of srv f w] by simp
  next
    case False
    show ?thesis
    proof (cases "truthy (Map_get (issueToWorkPackageMap w) k)")
      case None
      then show ?thesis
        using handleLink_cases(3) [OF c False, of w srv f] by auto
    next
      case (Some t)
      then show ?thesis
        using handleLink_cases(2) [OF c False, of w t srv f] by simp
    qed
  qed
qed

lemma fold_handleLink_fields:
  "issueToWorkPackageMap (fold (handleLink srv issue f) links w) = issueToWorkPackageMap w \<and>
   set (missingRelationships w) \<subseteq> set (missingRelationships (fold (handleLink srv issue f) links w)) \<and>
   (\<exists>xs. attempts (console (fold (handleLink srv issue f) links w)) = attempts (console w) @ xs)"
proof (induction links arbitrary: w)
  case Nil
  show ?case by simp
next
  case (Cons link links)
  obtain xs where a: "attempts (console (handleLink srv issue f link w)) = attempts (console w) @ xs"
    using handleLink_fields [of srv issue f link w] by blast
  obtain ys where b:
    "attempts (console (fold (handleLink srv issue f) links (handleLink srv issue f link w))) =
       attempts (console (handleLink srv issue f link w)) @ ys"
    using Cons [of "handleLink srv issue f link w"] by blast
  have "attempts (console (fold (handleLink srv issue f) (link # links) w)) =
          attempts (console w) @ (xs @ ys)"
    by (simp add: a b)
  then have c: "\<exists>zs. attempts (console (fold (handleLink srv issue f) (link # links) w)) =
          attempts (console w) @ zs"
    by blast
  have d: "issueToWorkPackageMap (fold (handleLink srv issue f) (link # links) w) =
             issueToWorkPackageMap w"
    using Cons [of "handleLink srv issue f link w"] handleLink_fields [of srv issue f link w]
    by simp
  have e: "set (missingRelationships w) \<subseteq>
             set (missingRelationships (fold (handleLink srv issue f) (link # links) w))"
    using Cons [of "handleLink srv issue f link w"] handleLink_fields [of srv issue f link w]
    by auto
  show ?case
    using c d e by blast
qed


lemma handleEpicLink_cases:
  "truthy (Map_get (issueToWorkPackageMap w) (Some epicKey)) = Some e \<Longrightarrow>
     handleEpicLink srv issue f epicKey w = createRelationship srv f e (Some ''partof'') w"
  "truthy (Map_get (issueToWorkPackageMap w) (Some epicKey)) = None \<Longrightarrow>
     handleEpicLink srv issue f epicKey w =
       (Inr (), (console_log (Epic_not_found epicKey) w)
                  \<lparr>missingRelationships :=
                     Set_add \<lparr>fromKey = key issue, toKey = Some epicKey,
                              pending_type = Some ''partof''\<rparr>
                       (missingRelationships w)\<rparr>)"
  by (simp_all add: handleEpicLink_def Let_def)

lemma handleEpicLink_fields:
  "fst (handleEpicLink srv issue f epicKey w) = Inr () \<and>
   issueToWorkPackageMap (snd (handleEpicLink srv issue f epicKey w)) = issueToWorkPackageMap w \<and>
   set (missingRelationships w) \<subseteq> set (missingRelationships (snd (handleEpicLink srv issue f epicKey w))) \<and>
   (\<exists>xs. attempts (console (snd (handleEpicLink srv issue f epicKey w))) = attempts (console w) @ xs)"
proof (cases "truthy (Map_get (issueToWorkPackageMap w) (Some epicKey))")
  case None
  then show ?thesis
    using handleEpicLink_cases(2) [of w epicKey srv issue f] by auto
next
  case (Some e)
  then show ?thesis
    using handleEpicLink_cases(1) [of w epicKey e srv issue f]
    by (simp add: createRelationship_never_throws)
qed

text \<open>The state after the epic link of an issue, and the links the loop then walks.\<close>

lemma handleRelationships_resolved:
  assumes "truthy (Map_get (issueToWorkPackageMap w) (Some (key issue))) = Some f"
    and "issuelinks issue \<noteq> None \<or> truthy_string (customfield_10014 issue) \<noteq> None"
  shows "handleRelationships srv issue w =
           (Inr (), fold (handleLink srv issue f)
                      (case issuelinks issue of None \<Rightarrow> [] | Some links \<Rightarrow> links)
                      (case truthy_string (customfield_10014 issue) of
                         None \<Rightarrow> w
                       | Some epicKey \<Rightarrow> snd (handleEpicLink srv issue f epicKey w)))"
proof (cases "truthy_string (customfield_10014 issue)")
  case None
  then show ?thesis
    using assms by (cases "issuelinks issue") (simp_all add: handleRelationships_def)
next
  case (Some epicKey)
  obtain w1 where e: "handleEpicLink srv issue f epicKey w = (Inr (), w1)"
    using handleEpicLink_fields [of srv issue f epicKey w]
    by (cases "handleEpicLink srv issue f epicKey w") simp
  show ?thesis
    using assms(1) Some e
    by (cases "issuelinks issue") (simp_all add: handleRelationships_def)
qed

lemma handleRelationships_fields:
  "fst (handleRelationships srv issue w) = Inr () \<and>
   issueToWorkPackageMap (snd (handleRelationships srv issue w)) = issueToWorkPackageMap w \<and>
   set (missingRelationships w) \<subseteq> set (missingRelationships (snd (handleRelationships srv issue w))) \<and>
   (\<exists>xs. attempts (console (snd (handleRelationships srv issue w))) = attempts (console w) @ xs)"
proof (cases "truthy (Map_get (issueToWorkPackageMap w) (Some (key issue)))")
  case None
  then show ?thesis
    by (simp add: handleRelationships_def)
next
  case (Some f)
  show ?thesis
  proof (cases "issuelinks issue \<noteq> None \<or> truthy_string (customfield_10014 issue) \<noteq> None")
    case False
    then show ?thesis
      by (simp add: handleRelationships_def)
  next
    case True
    let ?links = "case issuelinks issue of None \<Rightarrow> [] | Some links \<Rightarrow> links"
    let ?w1 = "case truthy_string (customfield_10014 issue) of
                 None \<Rightarrow> w
               | Some epicKey \<Rightarrow> snd (handleEpicLink srv issue f epicKey w)"
    have h: "handleRelationships srv issue w = (Inr (), fold (handleLink srv issue f) ?links ?w1)"
      using handleRelationships_resolved [OF Some True] .
    have w1: "issueToWorkPackageMap ?w1 = issueToWorkPackageMap w \<and>
              set (missingRelationships w) \<subseteq> set (missingRelationships ?w1) \<and>
              (\<exists>xs. attempts (console ?w1) = attempts (console w) @ xs)"
    proof (cases "truthy_string (customfield_10014 issue)")
      case None
      then show ?thesis by simp
    next
      case (Some epicKey)
      then show ?thesis
        using handleEpicLink_fields [of srv issue f epicKey w] by simp
    qed
    obtain xs where xs: "attempts (console ?w1) = attempts (console w) @ xs"
      using w1 by blast
    obtain ys where ys: "attempts (console (fold (handleLink srv issue f) ?links ?w1)) =
                           attempts (console ?w1) @ ys"
      using fold_handleLink_fields [of srv issue f ?links ?w1] by blast
    have "attempts (console (fold (handleLink srv issue f) ?links ?w1)) =
            attempts (console w) @ (xs @ ys)"
      by (simp only: xs ys append_assoc)
    then have a: "\<exists>zs. attempts (console (fold (handleLink srv issue f) ?links ?w1)) =
            attempts (console w) @ zs"
      by blast
    have b: "issueToWorkPackageMap (fold (handleLink srv issue f) ?links ?w1) = issueToWorkPackageMap w"
      using fold_handleLink_fields [of srv issue f ?links ?w1] w1 by simp
    have c: "set (missingRelationships w) \<subseteq>
               set (missingRelationships (fold (handleLink srv issue f) ?links ?w1))"
      using fold_handleLink_fields [of srv issue f ?links ?w1] w1 by blast
    show ?thesis
      using a b c by (simp only: h fst_conv snd_conv)
  qed
qed

lemma firstPass_fields:
  "fst (firstPass srv issues w) = Inr () \<and>
   issueToWorkPackageMap (snd (firstPass srv issues w)) = issueToWorkPackageMap w \<and>
   set (missingRelationships w) \<subseteq> set (missingRelationships (snd (firstPass srv issues w)))"
proof (induction issues arbitrary: w)
  case Nil
  show ?case by simp
next
  case (Cons issue issues)
  obtain w1 where h: "handleRelationships srv issue w = (Inr (), w1)"
    using handleRelationships_fields [of srv issue w]
    by (cases "handleRelationships srv issue w") simp
  have w1: "issueToWorkPackageMap w1 = issueToWorkPackageMap w"
      "set (missingRelationships w) \<subseteq> set (missingRelationships w1)"
    using handleRelationships_fields [of srv issue w] by (simp_all add: h)
  show ?case
    using Cons [of w1] w1 by (auto simp: h)
qed

lemma retryRelationship_cases:
  "truthy (Map_get (issueToWorkPackageMap w) (Some (fromKey rel))) = Some f \<Longrightarrow>
   truthy (Map_get (issueToWorkPackageMap w) (toKey rel)) = Some t \<Longrightarrow>
     retryRelationship srv rel w =
       console_log (Created_relationship (fromKey rel) (pending_type rel) (toKey rel))
         (snd (createRelationship srv f t (pending_type rel) w))"
  "truthy (Map_get (issueToWorkPackageMap w) (Some (fromKey rel))) = None \<or>
   truthy (Map_get (issueToWorkPackageMap w) (toKey rel)) = None \<Longrightarrow>
     retryRelationship srv rel w =
       console_log (Still_missing (fromKey rel) (pending_type rel) (toKey rel)) w"
proof -
  show "truthy (Map_get (issueToWorkPackageMap w) (Some (fromKey rel))) = Some f \<Longrightarrow>
        truthy (Map_get (issueToWorkPackageMap w) (toKey rel)) = Some t \<Longrightarrow>
          retryRelationship srv rel w =
            console_log (Created_relationship (fromKey rel) (pending_type rel) (toKey rel))
              (snd (createRelationship srv f t (pending_type rel) w))"
  proof -
    assume a: "truthy (Map_get (issueToWorkPackageMap w) (Some (fromKey rel))) = Some f"
      "truthy (Map_get (issueToWorkPackageMap w) (toKey rel)) = Some t"
    obtain w1 where cr: "createRelationship srv f t (pending_type rel) w = (Inr (), w1)"
      using createRelationship_returns [of srv f t "pending_type rel" w] by blast
    show ?thesis
      using a by (simp add: retryRelationship_def Let_def cr)
  qed
  show "truthy (Map_get (issueToWorkPackageMap w) (Some (fromKey rel))) = None \<or>
        truthy (Map_get (issueToWorkPackageMap w) (toKey rel)) = None \<Longrightarrow>
          retryRelationship srv rel w =
            console_log (Still_missing (fromKey rel) (pending_type rel) (toKey rel)) w"
    by (auto simp: retryRelationship_def Let_def split: option.splits)
qed

lemma retryRelationship_fields:
  "issueToWorkPackageMap (retryRelationship srv rel w) = issueToWorkPackageMap w \<and>
   missingRelationships (retryRelationship srv rel w) = missingRelationships w \<and>
   attempts (console (retryRelationship srv rel w)) =
     attempts (console w) @ retry_attempts (issueToWorkPackageMap w) [rel]"
proof (cases "truthy (Map_get (issueToWorkPackageMap w) (Some (fromKey rel)))")
  case None
  then show ?thesis
    using retryRelationship_cases(2) [of w rel srv] by (simp add: retry_attempts_def)
next
  case f: (Some f)
  show ?thesis
  proof (cases "truthy (Map_get (issueToWorkPackageMap w) (toKey rel))")
    case None
    then show ?thesis
      using retryRelationship_cases(2) [of w rel srv] f by (simp add: retry_attempts_def)
  next
    case (Some t)
    then show ?thesis
      using retryRelationship_cases(1) [OF f Some, of srv] f by (simp add: retry_attempts_def)
  qed
qed

lemma retry_attempts_Cons:
  "retry_attempts m (rel # rels) = retry_attempts m [rel] @ retry_attempts m rels"
  by (simp add: retry_attempts_def)

lemma fold_retryRelationship_fields:
  "issueToWorkPackageMap (fold (retryRelationship srv) rels w) = issueToWorkPackageMap w \<and>
   missingRelationships (fold (retryRelationship srv) rels w) = missingRelationships w \<and>
   attempts (console (fold (retryRelationship srv) rels w)) =
     attempts (console w) @ retry_attempts (issueToWorkPackageMap w) rels"
proof (induction rels arbitrary: w)
  case Nil
  show ?case by (simp add: retry_attempts_def)
next
  case (Cons rel rels)
  show ?case
    using Cons [of "retryRelationship srv rel w"] retryRelationship_fields [of srv rel w]
      retry_attempts_Cons [of "issueToWorkPackageMap w" rel rels]
    by simp
qed

lemma retryMissingRelationships_fields:
  "issueToWorkPackageMap (retryMissingRelationships srv w) = issueToWorkPackageMap w \<and>
   missingRelationships (retryMissingRelationships srv w) = [] \<and>
   attempts (console (retryMissingRelationships srv w)) =
     attempts (console w) @ retry_attempts (issueToWorkPackageMap w) (missingRelationships w)"
proof (cases "missingRelationships w = []")
  case True
  then show ?thesis
    by (simp add: retryMissingRelationships_def retry_attempts_def)
next
  case False
  let ?w2 = "(console_log (Retrying (length (missingRelationships w))) w)\<lparr>missingRelationships := []\<rparr>"
  have "retryMissingRelationships srv w = fold (retryRelationship srv) (missingRelationships w) ?w2"
    using False by (simp add: retryMissingRelationships_def Let_def)
  then show ?thesis
    using fold_retryRelationship_fields [of srv "missingRelationships w" ?w2] by simp
qed

lemma createRelationships_fields:
  "fst (createRelationships srv issues mapping w) = None \<and>
   missingRelationships (snd (createRelationships srv issues mapping w)) = [] \<and>
   issueToWorkPackageMap (snd (createRelationships srv issues mapping w)) =
     fold (\<lambda>(k, i) m. m(k \<mapsto> i)) mapping (issueToWorkPackageMap w)"
proof -
  let ?w2 = "(console_log Creating_relationships_banner w)
               \<lparr>issueToWorkPackageMap :=
                  fold (\<lambda>(k, i) m. m(k \<mapsto> i)) mapping (issueToWorkPackageMap w)\<rparr>"
  obtain w3 where p: "firstPass srv issues ?w2 = (Inr (), w3)"
    using firstPass_fields [of srv issues ?w2] by (cases "firstPass srv issues ?w2") simp
  have m: "issueToWorkPackageMap w3 = fold (\<lambda>(k, i) m. m(k \<mapsto> i)) mapping (issueToWorkPackageMap w)"
    using firstPass_fields [of srv issues ?w2] by (simp add: p)
  have "createRelationships srv issues mapping w =
          (None, console_log Complete_banner (retryMissingRelationships srv w3))"
    using p by (simp add: createRelationships_def Let_def)
  then show ?thesis
    using retryMissingRelationships_fields [of srv w3] m by simp
qed









lemma dom_fold_entries:
  "dom m \<subseteq> dom (fold (\<lambda>(k, i) m. m(k \<mapsto> i)) entries m)"
proof (induction entries arbitrary: m)
  case Nil
  show ?case by simp
next
  case (Cons x entries)
  obtain k i where x: "x = (k, i)" by (cases x)
  have "dom m \<subseteq> dom (m(k \<mapsto> i))"
    by (simp add: subset_insertI)
  also have "\<dots> \<subseteq> dom (fold (\<lambda>(k, i) m. m(k \<mapsto> i)) entries (m(k \<mapsto> i)))"
    using Cons [of "m(k \<mapsto> i)"] .
  finally show ?case
    by (simp only: x fold_simps case_prod_conv)
qed

section \<open>Entries queued by the first pass\<close>

lemma retry_attempts_unresolved:
  "list_all (\<lambda>rel. truthy (Map_get m (toKey rel)) = None) rels \<Longrightarrow> retry_attempts m rels = []"
  by (induction rels) (simp_all add: retry_attempts_def split: option.splits)

lemma handleLink_unresolved:
  assumes "list_all (\<lambda>rel. truthy (Map_get (issueToWorkPackageMap w) (toKey rel)) = None)
             (missingRelationships w)"
  shows "list_all (\<lambda>rel. truthy (Map_get (issueToWorkPackageMap w) (toKey rel)) = None)
           (missingRelationships (handleLink srv issue f link w))"
proof -
  obtain k ty skip where c: "classifyLink issue link = (k, ty, skip)"
    by (cases "classifyLink issue link")
  show ?thesis
  proof (cases skip)
    case True
    then show ?thesis
      using handleLink_cases(1) [OF c, of srv f w] assms by simp
  next
    case False
    show ?thesis
    proof (cases "truthy (Map_get (issueToWorkPackageMap w) k)")
      case None
      then show ?thesis
        using handleLink_cases(3) [OF c False, of w srv f] assms
        by (simp add: Set_add_def)
    next
      case (Some t)
      then show ?thesis
        using handleLink_cases(2) [OF c False, of w t srv f] assms by simp
    qed
  qed
qed


lemma fold_handleLink_unresolved:
  "list_all (\<lambda>rel. truthy (Map_get (issueToWorkPackageMap w) (toKey rel)) = None)
     (missingRelationships w) \<Longrightarrow>
   list_all (\<lambda>rel. truthy (Map_get (issueToWorkPackageMap w) (toKey rel)) = None)
     (missingRelationships (fold (handleLink srv issue f) links w))"
proof (induction links arbitrary: w)
  case Nil
  then show ?case by simp
next
  case (Cons link links)
  let ?w1 = "handleLink srv issue f link w"
  have m: "issueToWorkPackageMap ?w1 = issueToWorkPackageMap w"
    using handleLink_fields [of srv issue f link w] by simp
  have "list_all (\<lambda>rel. truthy (Map_get (issueToWorkPackageMap ?w1) (toKey rel)) = None)
          (missingRelationships ?w1)"
    using handleLink_unresolved [OF Cons.prems, of srv issue f link] by (simp only: m)
  then show ?case
    using Cons.IH [of ?w1] by (simp add: m)
qed

lemma handleEpicLink_unresolved:
  assumes "list_all (\<lambda>rel. truthy (Map_get (issueToWorkPackageMap w) (toKey rel)) = None)
             (missingRelationships w)"
  shows "list_all (\<lambda>rel. truthy (Map_get (issueToWorkPackageMap w) (toKey rel)) = None)
           (missingRelationships (snd (handleEpicLink srv issue f epicKey w)))"
proof (cases "truthy (Map_get (issueToWorkPackageMap w) (Some epicKey))")
  case None
  then show ?thesis
    using handleEpicLink_cases(2) [OF None, of srv issue f] assms by (simp add: Set_add_def)
next
  case (Some e)
  then show ?thesis
    using handleEpicLink_cases(1) [OF Some, of srv issue f] assms by simp
qed

lemma handleRelationships_unresolved:
  assumes "list_all (\<lambda>rel. truthy (Map_get (issueToWorkPackageMap w) (toKey rel)) = None)
             (missingRelationships w)"
  shows "list_all (\<lambda>rel. truthy (Map_get (issueToWorkPackageMap w) (toKey rel)) = None)
           (missingRelationships (snd (handleRelationships srv issue w)))"
proof (cases "truthy (Map_get (issueToWorkPackageMap w) (Some (key issue)))")
  case None
  then show ?thesis
    using assms by (simp add: handleRelationships_def)
next
  case (Some f)
  show ?thesis
  proof (cases "issuelinks issue \<noteq> None \<or> truthy_string (customfield_10014 issue) \<noteq> None")
    case False
    then show ?thesis
      using assms by (simp add: handleRelationships_def)
  next
    case True
    let ?links = "case issuelinks issue of None \<Rightarrow> [] | Some links \<Rightarrow> links"
    let ?w1 = "case truthy_string (customfield_10014 issue) of
                 None \<Rightarrow> w
               | Some epicKey \<Rightarrow> snd (handleEpicLink srv issue f epicKey w)"
    have m: "issueToWorkPackageMap ?w1 = issueToWorkPackageMap w"
      using handleEpicLink_fields [of srv issue f _ w]
      by (cases "truthy_string (customfield_10014 issue)") simp_all
    have "list_all (\<lambda>rel. truthy (Map_get (issueToWorkPackageMap w) (toKey rel)) = None)
            (missingRelationships ?w1)"
      using assms handleEpicLink_unresolved [OF assms, of srv issue f]
      by (cases "truthy_string (customfield_10014 issue)") simp_all
    then have "list_all (\<lambda>rel. truthy (Map_get (issueToWorkPackageMap ?w1) (toKey rel)) = None)
            (missingRelationships ?w1)"
      by (simp only: m)
    then have "list_all (\<lambda>rel. truthy (Map_get (issueToWorkPackageMap ?w1) (toKey rel)) = None)
            (missingRelationships (fold (handleLink srv issue f) ?links ?w1))"
      by (rule fold_handleLink_unresolved)
    then show ?thesis
      by (simp only: handleRelationships_resolved [OF Some True] snd_conv m)
  qed
qed

lemma firstPass_unresolved:
  "list_all (\<lambda>rel. truthy (Map_get (issueToWorkPackageMap w) (toKey rel)) = None)
     (missingRelationships w) \<Longrightarrow>
   list_all (\<lambda>rel. truthy (Map_get (issueToWorkPackageMap w) (toKey rel)) = None)
     (missingRelationships (snd (firstPass srv issues w)))"
proof (induction issues arbitrary: w)
  case Nil
  then show ?case by simp
next
  case (Cons issue issues)
  obtain w1 where h: "handleRelationships srv issue w = (Inr (), w1)"
    using handleRelationships_fields [of srv issue w]
    by (cases "handleRelationships srv issue w") simp
  have m: "issueToWorkPackageMap w1 = issueToWorkPackageMap w"
    using handleRelationships_fields [of srv issue w] by (simp add: h)
  have "list_all (\<lambda>rel. truthy (Map_get (issueToWorkPackageMap w1) (toKey rel)) = None)
          (missingRelationships w1)"
    using handleRelationships_unresolved [OF Cons.prems, of srv issue] by (simp add: h m)
  then show ?case
    using Cons.IH [of w1] by (simp add: h m)
qed

lemma fold_retryRelationship_unresolved:
  "list_all (\<lambda>rel. truthy (Map_get (issueToWorkPackageMap w) (toKey rel)) = None) rels \<Longrightarrow>
     requests (fold (retryRelationship srv) rels w) = requests w \<and>
     server_state (fold (retryRelationship srv) rels w) = server_state w"
proof (induction rels arbitrary: w)
  case Nil
  show ?case by simp
next
  case (Cons rel rels)
  have r: "retryRelationship srv rel w =
             console_log (Still_missing (fromKey rel) (pending_type rel) (toKey rel)) w"
    using retryRelationship_cases(2) [of w rel srv] Cons.prems by simp
  show ?case
    using Cons.IH [of "retryRelationship srv rel w"] Cons.prems by (simp add: r)
qed

section \<open>The properties the specification states\<close>



text \<open>
  C7. For every call of \<open>createRelationship\<close> and every server: the call never throws;
  the first request it sends is the existence check's lookup of \<open>fromId\<close>; it sends no
  creation when the check reports a relationship, and exactly one, from \<open>fromId\<close> with
  the payload for \<open>toId\<close> and the type, otherwise; and when the check reports a
  relationship the call ends by logging "Relationship already exists". A rejected
  creation is caught inside the call.
\<close>

theorem createRelationship_check_then_create:
  "fst (createRelationship srv fromId toId type w) = Inr () \<and>
   take (Suc (length (requests w))) (requests (snd (createRelationship srv fromId toId type w))) =
     requests w @ [Get_work_package fromId] \<and>
   creations (requests (snd (createRelationship srv fromId toId type w))) =
     creations (requests w) @
     (if fst (checkExistingRelationship srv fromId toId type
                (console_log (Attempting fromId type toId) w))
      then [] else [(fromId, creation_payload toId type)]) \<and>
   (fst (checkExistingRelationship srv fromId toId type
          (console_log (Attempting fromId type toId) w)) \<longrightarrow>
    console (snd (createRelationship srv fromId toId type w)) =
      console (snd (checkExistingRelationship srv fromId toId type
                      (console_log (Attempting fromId type toId) w))) @
      [(Stdout, Already_exists type fromId toId)])"
proof -
  let ?w0 = "console_log (Attempting fromId type toId) w"
  obtain ex w1 where a: "checkExistingRelationship srv fromId toId type ?w0 = (ex, w1)"
    by (cases "checkExistingRelationship srv fromId toId type ?w0")
  have "ex \<longrightarrow> console (snd (createRelationship srv fromId toId type w)) =
          console w1 @ [(Stdout, Already_exists type fromId toId)]"
    using createRelationship_try_cases(1) [OF a] by (simp add: createRelationship_def)
  then have c: "fst (checkExistingRelationship srv fromId toId type ?w0) \<longrightarrow>
      console (snd (createRelationship srv fromId toId type w)) =
      console (snd (checkExistingRelationship srv fromId toId type ?w0)) @
      [(Stdout, Already_exists type fromId toId)]"
    by (simp add: a)
  show ?thesis
    using c by (simp add: createRelationship_never_throws)
qed

text \<open>
  On a store where 1 relates to 2, creating "relates" from 2 to 1 sends no creation and
  ends with the "already exists" line; on a server that rejects every creation, the call
  sends its one creation and still returns normally.
\<close>

theorem createRelationship_check_then_create_witness:
  "fst (checkExistingRelationship store_server 2 1 (Some ''relates'')
         (console_log (Attempting 2 (Some ''relates'') 1) (initial_world related_store))) \<and>
   fst (createRelationship store_server 2 1 (Some ''relates'') (initial_world related_store)) = Inr () \<and>
   creations (requests (snd (createRelationship store_server 2 1 (Some ''relates'')
     (initial_world related_store)))) = [] \<and>
   last (console (snd (createRelationship store_server 2 1 (Some ''relates'')
     (initial_world related_store)))) = (Stdout, Already_exists (Some ''relates'') 2 1) \<and>
   \<not> fst (checkExistingRelationship rejecting_server 1 2 (Some ''blocks'')
         (console_log (Attempting 1 (Some ''blocks'') 2) (initial_world empty_store))) \<and>
   fst (createRelationship rejecting_server 1 2 (Some ''blocks'') (initial_world empty_store)) = Inr () \<and>
   creations (requests (snd (createRelationship rejecting_server 1 2 (Some ''blocks'')
     (initial_world empty_store)))) = [(1, creation_payload 2 (Some ''blocks''))]"
proof -
  have a: "fst (checkExistingRelationship store_server 2 1 (Some ''relates'')
         (console_log (Attempting 2 (Some ''relates'') 1) (initial_world related_store)))"
    by (simp add: run related_store_def)
  have b: "\<not> fst (checkExistingRelationship rejecting_server 1 2 (Some ''blocks'')
         (console_log (Attempting 1 (Some ''blocks'') 2) (initial_world empty_store)))"
    by (simp add: run)
  have c: "requests (initial_world related_store) = []" "requests (initial_world empty_store) = []"
    by (simp_all add: initial_world_def)
  show ?thesis
    using createRelationship_check_then_create
        [of store_server 2 1 "Some ''relates''" "initial_world related_store"]
      createRelationship_check_then_create
        [of rejecting_server 1 2 "Some ''blocks''" "initial_world empty_store"] a b
    by (simp add: c)
qed

text \<open>
  C10. An issue whose own key has no entry in \<open>issueToWorkPackageMap\<close> leaves
  \<open>handleRelationships\<close> at once: no request is sent, nothing is logged and nothing is
  added to \<open>missingRelationships\<close>; the state is unchanged.
\<close>

theorem unmapped_issue_is_dropped:
  assumes "issueToWorkPackageMap w (key issue) = None"
  shows "handleRelationships srv issue w = (Inr (), w)"
  using assms by (simp add: handleRelationships_def Map_get_def truthy_def)

text \<open>PROJ-9, with an epic link and a link, on an empty mapping.\<close>

theorem unmapped_issue_is_dropped_witness:
  "issueToWorkPackageMap (initial_world empty_store) (key proj9) = None \<and>
   customfield_10014 proj9 = Some ''PROJ-1'' \<and>
   issuelinks proj9 \<noteq> None \<and>
   handleRelationships store_server proj9 (initial_world empty_store) =
     (Inr (), initial_world empty_store)"
  using unmapped_issue_is_dropped [of "initial_world empty_store" proj9 store_server]
  by (simp add: initial_world_def proj9_def)

text \<open>
  C4. On the reference store, where every lookup is answered from the store's contents,
  the existence check is symmetric: for every store, every two ids and whatever the
  relation types and the rest of the state, \<open>checkExistingRelationship\<close> gives the same
  answer for (a, b) and for (b, a).
\<close>

theorem oracle_symmetric_on_store:
  "fst (checkExistingRelationship store_server a b type (w\<lparr>server_state := s\<rparr>)) =
   fst (checkExistingRelationship store_server b a type' (w'\<lparr>server_state := s\<rparr>))"
  by (simp add: store_checkExistingRelationship store_answer_commute [of s a b])

text \<open>
  A relation stored from 1 to 2 is found from both sides, and so is the parent link of
  work item 2 to work item 1.
\<close>

theorem oracle_symmetric_on_store_witness:
  "fst (checkExistingRelationship store_server 1 2 (Some ''blocks'') (initial_world related_store)) \<and>
   fst (checkExistingRelationship store_server 2 1 (Some ''blocked'') (initial_world related_store)) \<and>
   fst (checkExistingRelationship store_server 1 2 (Some ''blocks'') (initial_world hierarchy_store)) \<and>
   fst (checkExistingRelationship store_server 2 1 (Some ''blocked'') (initial_world hierarchy_store))"
proof -
  have a: "(initial_world s :: store world)\<lparr>server_state := s\<rparr> = initial_world s" for s
    by (simp add: initial_world_def)
  have b: "fst (checkExistingRelationship store_server 1 2 (Some ''blocks'') (initial_world related_store))"
    by (simp add: run related_store_def)
  have c: "fst (checkExistingRelationship store_server 1 2 (Some ''blocks'') (initial_world hierarchy_store))"
    by (simp add: run hierarchy_store_def)
  show ?thesis
    using oracle_symmetric_on_store
        [where a = 1 and b = 2 and type = "Some ''blocks''" and type' = "Some ''blocked''"
           and s = related_store and w = "initial_world related_store"
           and w' = "initial_world related_store"]
      oracle_symmetric_on_store
        [where a = 1 and b = 2 and type = "Some ''blocks''" and type' = "Some ''blocked''"
           and s = hierarchy_store and w = "initial_world hierarchy_store"
           and w' = "initial_world hierarchy_store"] b c
    by (simp only: a)
qed








text \<open>
  C9, as amended. A call of \<open>createRelationships\<close> adds its entries to
  \<open>issueToWorkPackageMap\<close> and removes none: the next call starts from every key the
  earlier calls stored. \<open>missingRelationships\<close> is empty when a call returns, because the
  retry pass clears it.
\<close>

theorem module_state_after_call:
  "issueToWorkPackageMap (snd (createRelationships srv issues mapping w)) =
     fold (\<lambda>(k, i) m. m(k \<mapsto> i)) mapping (issueToWorkPackageMap w) \<and>
   dom (issueToWorkPackageMap w) \<subseteq>
     dom (issueToWorkPackageMap (snd (createRelationships srv issues mapping w))) \<and>
   missingRelationships (snd (createRelationships srv issues mapping w)) = []"
  using createRelationships_fields [of srv issues mapping w]
    dom_fold_entries [of "issueToWorkPackageMap w" mapping]
  by simp

text \<open>
  C9 as stated fails. A first call stores PROJ-5 \<open>\<mapsto>\<close> 42 and PROJ-1 \<open>\<mapsto>\<close> 7; a second call
  with an empty mapping still resolves both keys and creates "partof" from 42 to 7 for
  PROJ-5.
\<close>

theorem mapping_survives_between_calls:
  "issueToWorkPackageMap (snd (createRelationships store_server []
      [(''PROJ-5'', 42), (''PROJ-1'', 7)] (initial_world empty_store))) ''PROJ-5'' = Some 42 \<and>
   creations (requests (snd (createRelationships store_server [proj5] []
      (snd (createRelationships store_server []
         [(''PROJ-5'', 42), (''PROJ-1'', 7)] (initial_world empty_store)))))) =
     [(42, creation_payload 7 (Some ''partof''))]"
  by (simp add: run proj5_def)

text \<open>
  C1 on the code. X is created before Y; X has the outward "duplicates" link to Y and Y
  the inward "is duplicated by" link to X. Neither side is skipped by the comparison of
  lines 265 and 286, so the issue processed first creates its relation and the existence
  check stops the other. In the batch order Y, X the one creation is "duplicated" from
  Y's work item 2 to X's work item 1; in the order X, Y it is "duplicates" from 1 to 2.
\<close>

theorem duplicate_pair_newer_first:
  "js_lt (created issue_X) (created issue_Y) \<and>
   creations (requests (snd (createRelationships store_server [issue_Y, issue_X]
      [(''PROJ-1'', 1), (''PROJ-2'', 2)] (initial_world empty_store)))) =
     [(2, creation_payload 1 (Some ''duplicated''))] \<and>
   relations (server_state (snd (createRelationships store_server [issue_Y, issue_X]
      [(''PROJ-1'', 1), (''PROJ-2'', 2)] (initial_world empty_store)))) =
     [\<lparr>relation_from = 2, relation_to = 1, relation_type = Some ''duplicated''\<rparr>] \<and>
   relations (server_state (snd (createRelationships store_server [issue_X, issue_Y]
      [(''PROJ-1'', 1), (''PROJ-2'', 2)] (initial_world empty_store)))) =
     [\<lparr>relation_from = 1, relation_to = 2, relation_type = Some ''duplicates''\<rparr>]"
  by (simp add: run issue_X_def issue_Y_def)

text \<open>
  C3 on the code. PROJ-3 blocks PROJ-4, both mapped, and the server rejects the creation.
  \<open>createRelationship\<close> catches the rejection itself, so the \<open>catch\<close> of line 308 never
  runs: after the first pass \<open>missingRelationships\<close> is empty, and the whole run makes one
  call and one creation, with no retry.
\<close>

theorem rejected_creation_is_not_queued:
  "missingRelationships (snd (firstPass rejecting_server [proj3]
      (module_state [(''PROJ-3'', 3), (''PROJ-4'', 4)] []))) = [] \<and>
   (Stderr, Error_creating 3 4 (Some ''blocks'') ''Request failed with status code 500'')
     \<in> set (console (snd (firstPass rejecting_server [proj3]
           (module_state [(''PROJ-3'', 3), (''PROJ-4'', 4)] [])))) \<and>
   creations (requests (snd (createRelationships rejecting_server [proj3]
      [(''PROJ-3'', 3), (''PROJ-4'', 4)] (initial_world empty_store)))) =
     [(3, creation_payload 4 (Some ''blocks''))] \<and>
   attempts (console (snd (createRelationships rejecting_server [proj3]
      [(''PROJ-3'', 3), (''PROJ-4'', 4)] (initial_world empty_store)))) =
     [(3, Some ''blocks'', 4)]"
  by (simp add: run proj3_def module_state_def)

section \<open>Further properties of the module\<close>

text \<open>
  X1. For a duplicate link recorded on both issues, the outward "duplicates" side on one
  and the inward "is duplicated by" side on the other, the two \<open>shouldSkip\<close> flags of
  lines 265 and 286 are always equal: the comparison skips both sides or neither.
\<close>

theorem duplicate_tie_break_same_on_both_sides:
  "snd (snd (classifyLink
     \<lparr>key = kx, created = cx, customfield_10014 = ex, issuelinks = lx\<rparr>
     \<lparr>type_outward = ''duplicates'', type_inward = ti,
      outwardIssue = Some \<lparr>linked_key = ky, linked_created = cy\<rparr>, inwardIssue = ix\<rparr>)) =
   snd (snd (classifyLink
     \<lparr>key = ky, created = cy, customfield_10014 = ey, issuelinks = ly\<rparr>
     \<lparr>type_outward = to, type_inward = ''is duplicated by'',
      outwardIssue = None, inwardIssue = Some \<lparr>linked_key = kx, linked_created = cx\<rparr>\<rparr>))"
  by (simp add: classifyLink_def js_gt_def js_lt_def split: option.splits)

text \<open>
  X2. A link that is not skipped and whose target resolves never changes
  \<open>missingRelationships\<close>, whatever the server answers: the \<open>catch\<close> of lines 308-320
  adds nothing.
\<close>

theorem resolved_link_never_queued:
  assumes "classifyLink issue link = (k, ty, False)"
    and "truthy (Map_get (issueToWorkPackageMap w) k) = Some t"
  shows "missingRelationships (handleLink srv issue f link w) = missingRelationships w"
  using handleLink_cases(2) [OF assms(1) _ assms(2), of srv f] by simp

text \<open>PROJ-3 blocks PROJ-4 on the server that rejects every creation.\<close>

theorem resolved_link_never_queued_witness:
  "missingRelationships (handleLink rejecting_server proj3 3
     \<lparr>type_outward = ''blocks'', type_inward = ''is blocked by'',
      outwardIssue = Some \<lparr>linked_key = ''PROJ-4'', linked_created = None\<rparr>,
      inwardIssue = None\<rparr>
     (module_state [(''PROJ-3'', 3), (''PROJ-4'', 4)] [])) = []"
  using resolved_link_never_queued
    [where issue = proj3 and k = "Some ''PROJ-4''" and ty = "Some ''blocks''" and t = 4
       and w = "module_state [(''PROJ-3'', 3), (''PROJ-4'', 4)] []" and srv = rejecting_server
       and f = 3
       and link = "\<lparr>type_outward = ''blocks'', type_inward = ''is blocked by'',
                     outwardIssue = Some \<lparr>linked_key = ''PROJ-4'', linked_created = None\<rparr>,
                     inwardIssue = None\<rparr>"]
  by (simp add: classifyLink_def truthy_def Map_get_def module_state_def)

text \<open>
  X3. When the first pass starts with an empty \<open>missingRelationships\<close>, every entry it
  queues has a target key that does not resolve, and the mapping does not change before
  the retry pass: the retry pass sends no request, leaves the server as it is and calls
  \<open>createRelationship\<close> not at all.
\<close>

theorem deferred_entries_stay_unresolved:
  assumes "missingRelationships w = []"
  shows "requests (retryMissingRelationships srv (snd (firstPass srv issues w))) =
           requests (snd (firstPass srv issues w)) \<and>
         server_state (retryMissingRelationships srv (snd (firstPass srv issues w))) =
           server_state (snd (firstPass srv issues w)) \<and>
         attempts (console (retryMissingRelationships srv (snd (firstPass srv issues w)))) =
           attempts (console (snd (firstPass srv issues w)))"
proof -
  let ?w1 = "snd (firstPass srv issues w)"
  have m: "issueToWorkPackageMap ?w1 = issueToWorkPackageMap w"
    using firstPass_fields [of srv issues w] by simp
  have u: "list_all (\<lambda>rel. truthy (Map_get (issueToWorkPackageMap ?w1) (toKey rel)) = None)
             (missingRelationships ?w1)"
    using firstPass_unresolved [of w srv issues] assms by (simp add: m)
  have a: "attempts (console (retryMissingRelationships srv ?w1)) = attempts (console ?w1)"
    using retryMissingRelationships_fields [of srv ?w1] retry_attempts_unresolved [OF u] by simp
  have b: "requests (retryMissingRelationships srv ?w1) = requests ?w1 \<and>
           server_state (retryMissingRelationships srv ?w1) = server_state ?w1"
  proof (cases "missingRelationships ?w1 = []")
    case True
    then show ?thesis
      by (simp add: retryMissingRelationships_def)
  next
    case False
    let ?w2 = "(console_log (Retrying (length (missingRelationships ?w1))) ?w1)
                 \<lparr>missingRelationships := []\<rparr>"
    have "retryMissingRelationships srv ?w1 =
            fold (retryRelationship srv) (missingRelationships ?w1) ?w2"
      using False by (simp add: retryMissingRelationships_def Let_def)
    then show ?thesis
      using fold_retryRelationship_unresolved [of ?w2 "missingRelationships ?w1" srv] u
      by simp
  qed
  show ?thesis
    using a b by blast
qed

text \<open>PROJ-9 queues its epic link and its link; the retry pass sends nothing.\<close>

theorem deferred_entries_stay_unresolved_witness:
  "missingRelationships (snd (firstPass store_server [proj9] (module_state [(''PROJ-9'', 9)] []))) =
     [\<lparr>fromKey = ''PROJ-9'', toKey = Some ''PROJ-1'', pending_type = Some ''partof''\<rparr>,
      \<lparr>fromKey = ''PROJ-9'', toKey = Some ''PROJ-999'', pending_type = Some ''blocks''\<rparr>] \<and>
   requests (retryMissingRelationships store_server
     (snd (firstPass store_server [proj9] (module_state [(''PROJ-9'', 9)] [])))) = []"
proof -
  have a: "missingRelationships (module_state [(''PROJ-9'', 9)] []) = []"
    by (simp add: module_state_def)
  have b: "missingRelationships (snd (firstPass store_server [proj9] (module_state [(''PROJ-9'', 9)] []))) =
     [\<lparr>fromKey = ''PROJ-9'', toKey = Some ''PROJ-1'', pending_type = Some ''partof''\<rparr>,
      \<lparr>fromKey = ''PROJ-9'', toKey = Some ''PROJ-999'', pending_type = Some ''blocks''\<rparr>]"
    by (simp add: run proj9_def module_state_def)
  have c: "requests (snd (firstPass store_server [proj9] (module_state [(''PROJ-9'', 9)] []))) = []"
    by (simp add: run proj9_def module_state_def)
  show ?thesis
    using deferred_entries_stay_unresolved [OF a, of store_server "[proj9]"] b c
    by simp
qed

end
